theory Spec2Isabelle
  imports Complex_Main "HOL-Library.Sublist"
begin

section \<open>ObjectWise: matching, synthesis and fallback\<close>

text \<open>
  The development embeds the decision logic of the ObjectWise recognition provider
  (the two versions of the context provider and \<^verbatim>\<open>visionToInstructions.js\<close>).

  Conventions of the embedding:
  \<^item> JavaScript numbers that carry scores are modelled as \<^typ>\<open>real\<close>; \<^verbatim>\<open>Math.round\<close>
    is \<^const>\<open>round\<close> (\<open>\<lfloor>x + 1/2\<rfloor>\<close>) and \<^verbatim>\<open>Math.floor\<close> is \<^const>\<open>floor\<close>.
  \<^item> Strings are \<^typ>\<open>string\<close>; case conversion acts on the ASCII letters.
  \<^item> A property that may be absent from a provider record is an \<^typ>\<open>'a option\<close>.
  \<^item> A thrown exception is the \<open>Inl\<close> branch of a sum.
  \<^item> The knowledge base \<^verbatim>\<open>objectDatabase\<close> (imported by the source from a module that is
    not part of the development) is a parameter \<open>db\<close> of every function that reads it.
\<close>

subsection \<open>Strings\<close>

definition upperLetters :: string where
  "upperLetters = ''ABCDEFGHIJKLMNOPQRSTUVWXYZ''"

definition lowerLetters :: string where
  "lowerLetters = ''abcdefghijklmnopqrstuvwxyz''"

definition toLowerChar :: "char \<Rightarrow> char" where
  "toLowerChar c =
     (case map_of (zip upperLetters lowerLetters) c of Some l \<Rightarrow> l | None \<Rightarrow> c)"

definition toUpperChar :: "char \<Rightarrow> char" where
  "toUpperChar c =
     (case map_of (zip lowerLetters upperLetters) c of Some u \<Rightarrow> u | None \<Rightarrow> c)"

definition toLowerCase :: "string \<Rightarrow> string" where
  "toLowerCase s = map toLowerChar s"

text \<open>\<^verbatim>\<open>s.includes(t)\<close> (written \<open>str_includes s t\<close>): \<open>t\<close> occurs in \<open>s\<close> as a contiguous block.\<close>

definition str_includes :: "string \<Rightarrow> string \<Rightarrow> bool" where
  "str_includes s t = sublist t s"

text \<open>\<^verbatim>\<open>s.split(' ')\<close>: always at least one piece.\<close>

fun split_on :: "char \<Rightarrow> string \<Rightarrow> string list" where
  "split_on sep [] = [[]]"
| "split_on sep (c # cs) =
     (if c = sep then [] # split_on sep cs
      else (case split_on sep cs of w # ws \<Rightarrow> (c # w) # ws | [] \<Rightarrow> [[c]]))"

text \<open>\<^verbatim>\<open>words.join(' ')\<close>.\<close>

fun join :: "string \<Rightarrow> string list \<Rightarrow> string" where
  "join sep [] = []"
| "join sep [w] = w"
| "join sep (w # ws) = w @ sep @ join sep ws"

text \<open>Decimal rendering of a non-negative integer, as in a template literal.\<close>

fun decimal :: "nat \<Rightarrow> string" where
  "decimal n =
     (if n < 10 then [''0123456789'' ! n]
      else decimal (n div 10) @ [''0123456789'' ! (n mod 10)])"

subsection \<open>Data\<close>

text \<open>
  A provider detection. Label annotations carry \<^verbatim>\<open>description\<close>, localized objects carry
  \<^verbatim>\<open>name\<close> (field \<open>dname\<close> here); either and the score may be absent.
\<close>

record detection =
  description :: "string option"
  dname :: "string option"
  score :: "real option"

text \<open>A knowledge-base entry: the three fields the matcher reads.\<close>

record entry =
  name :: string
  category :: string
  tags :: "string list"

text \<open>
  The object returned by the matcher. The source stores \<^verbatim>\<open>matchScore.toFixed(2)\<close>, the
  two-decimal rendering of the accumulated score; the field holds the score itself.
\<close>

record matchResult =
  object :: entry
  confidence :: int
  detectedAs :: string
  matchScore :: real

subsection \<open>The matcher (keyword-mapping version)\<close>

text \<open>\<^verbatim>\<open>a || b\<close> on possibly absent strings: the empty string is falsy.\<close>

definition truthy :: "string option \<Rightarrow> bool" where
  "truthy v = (case v of None \<Rightarrow> False | Some s \<Rightarrow> s \<noteq> [])"

definition orElse :: "string option \<Rightarrow> string option \<Rightarrow> string option" where
  "orElse a b = (if truthy a then a else b)"

text \<open>\<^verbatim>\<open>(detection.description || detection.name || '').toLowerCase()\<close>\<close>

definition labelOf :: "detection \<Rightarrow> string" where
  "labelOf d =
     toLowerCase (case orElse (orElse (description d) (dname d)) (Some []) of
                    Some s \<Rightarrow> s | None \<Rightarrow> [])"

text \<open>\<^verbatim>\<open>detection.score || 0\<close>\<close>

definition confidenceOf :: "detection \<Rightarrow> real" where
  "confidenceOf d = (case score d of None \<Rightarrow> 0 | Some s \<Rightarrow> s)"

definition minConfidenceThreshold :: real where
  "minConfidenceThreshold = 0.3"

definition keywordMappings :: "(string \<times> string list) list" where
  "keywordMappings =
     [(''mobile phone'', [''smartphone'', ''phone'', ''mobile'']),
      (''smartphone'', [''mobile phone'', ''phone'', ''cell phone'']),
      (''coffee maker'', [''coffee machine'', ''drip coffee'']),
      (''drill'', [''power drill'', ''electric drill'']),
      (''knife'', [''kitchen knife'', ''chef knife'']),
      (''screwdriver'', [''tool'', ''hand tool''])]"

text \<open>The name signal: exact equality, else containment gated by the lengths.\<close>

definition nameStep :: "string \<Rightarrow> real \<Rightarrow> string \<Rightarrow> real \<Rightarrow> real" where
  "nameStep label c objName ms =
     (if objName = label \<or> label = objName then ms + 1.0 * c
      else if str_includes objName label \<or> str_includes label objName
           then (if length label > 3 \<and> length objName > 3 then ms + 0.7 * c else ms)
           else ms)"

text \<open>Body of \<^verbatim>\<open>objTags.forEach\<close>.\<close>

definition tagStep :: "string \<Rightarrow> real \<Rightarrow> string \<Rightarrow> real \<Rightarrow> real" where
  "tagStep label c tag ms =
     (if tag = label \<or> label = tag then ms + 0.9 * c
      else if (str_includes tag label \<or> str_includes label tag) \<and> length label > 3 \<and> length tag > 3
           then ms + 0.5 * c
           else ms)"

definition categoryStep :: "string \<Rightarrow> real \<Rightarrow> string \<Rightarrow> real \<Rightarrow> real" where
  "categoryStep label c objCategory ms =
     (if str_includes objCategory label \<or> str_includes label objCategory then ms + 0.3 * c else ms)"

text \<open>Body of \<^verbatim>\<open>Object.entries(keywordMappings).forEach\<close>.\<close>

definition keywordStep ::
  "string \<Rightarrow> real \<Rightarrow> string \<Rightarrow> string list \<Rightarrow> string \<times> string list \<Rightarrow> real \<Rightarrow> real" where
  "keywordStep label c objName objTags km ms =
     (case km of (key, synonyms) \<Rightarrow>
        if list_ex (\<lambda>synonym. str_includes label synonym \<or> str_includes synonym label) synonyms
        then (if str_includes objName key \<or> key \<in> set objTags then ms + 0.6 * c else ms)
        else ms)"

text \<open>The accumulated \<^verbatim>\<open>matchScore\<close> of one (detection, entry) pair.\<close>

definition pairScore :: "string \<Rightarrow> real \<Rightarrow> entry \<Rightarrow> real" where
  "pairScore label c obj =
     (let objName = toLowerCase (name obj);
          objTags = map toLowerCase (tags obj);
          objCategory = toLowerCase (category obj);
          ms1 = nameStep label c objName 0;
          ms2 = fold (tagStep label c) objTags ms1;
          ms3 = categoryStep label c objCategory ms2
      in fold (keywordStep label c objName objTags) keywordMappings ms3)"

text \<open>The loop state: \<^verbatim>\<open>bestMatch\<close> and \<^verbatim>\<open>highestScore\<close>.\<close>

type_synonym matchState = "matchResult option \<times> real"

text \<open>Body of \<^verbatim>\<open>objectDatabase.forEach\<close>.\<close>

definition entryStep :: "string \<Rightarrow> real \<Rightarrow> entry \<Rightarrow> matchState \<Rightarrow> matchState" where
  "entryStep label c obj st =
     (let ms = pairScore label c obj in
      if ms > snd st \<and> ms > 0.2
      then (Some \<lparr>object = obj, confidence = min (round (ms * 100)) 95,
                  detectedAs = label, matchScore = ms\<rparr>, ms)
      else st)"

text \<open>Body of \<^verbatim>\<open>detections.forEach\<close>.\<close>

definition detectionStep :: "entry list \<Rightarrow> detection \<Rightarrow> matchState \<Rightarrow> matchState" where
  "detectionStep db d st =
     (let label = labelOf d; c = confidenceOf d in
      if c < minConfidenceThreshold then st
      else fold (entryStep label c) db st)"

definition matchToDatabase :: "entry list \<Rightarrow> detection list \<Rightarrow> matchResult option" where
  "matchToDatabase db detections =
     (case fold (detectionStep db) detections (None, 0) of
        (bestMatch, highestScore) \<Rightarrow>
          if bestMatch = None \<or> highestScore < 0.4 then None else bestMatch)"

subsection \<open>The matcher (earlier version, without keyword mappings)\<close>

datatype error = Error string | TypeError

record simpleMatch =
  sm_object :: entry
  sm_confidence :: int

type_synonym simpleState = "simpleMatch option \<times> real"

definition simplePairScore :: "string \<Rightarrow> real \<Rightarrow> entry \<Rightarrow> real" where
  "simplePairScore label c obj =
     (let l = toLowerCase label;
          ms1 = (if str_includes (toLowerCase (name obj)) l \<or> str_includes l (toLowerCase (name obj))
                 then 0 + 0.8 * c else 0);
          ms2 = fold (\<lambda>tag ms.
                        if str_includes (toLowerCase tag) l \<or> str_includes l (toLowerCase tag)
                        then ms + 0.6 * c else ms) (tags obj) ms1
      in if str_includes (toLowerCase (category obj)) l \<or> str_includes l (toLowerCase (category obj))
         then ms2 + 0.5 * c else ms2)"

definition simpleEntryStep :: "string \<Rightarrow> real \<Rightarrow> entry \<Rightarrow> simpleState \<Rightarrow> simpleState" where
  "simpleEntryStep label c obj st =
     (let ms = simplePairScore label c obj in
      if ms > snd st
      then (Some \<lparr>sm_object = obj, sm_confidence = round (ms * 100)\<rparr>, ms)
      else st)"

text \<open>
  \<^verbatim>\<open>detection.description || detection.name\<close> may be \<^verbatim>\<open>undefined\<close>; the first
  \<^verbatim>\<open>label.toLowerCase()\<close>, evaluated for the first entry of the knowledge base, then
  throws a TypeError.
\<close>

definition simpleDetectionStep :: "entry list \<Rightarrow> detection \<Rightarrow> simpleState \<Rightarrow> error + simpleState" where
  "simpleDetectionStep db d st =
     (case orElse (description d) (dname d) of
        None \<Rightarrow> (if db = [] then Inr st else Inl TypeError)
      | Some label \<Rightarrow> Inr (fold (simpleEntryStep label (confidenceOf d)) db st))"

fun simpleLoop :: "entry list \<Rightarrow> detection list \<Rightarrow> simpleState \<Rightarrow> error + simpleState" where
  "simpleLoop db [] st = Inr st"
| "simpleLoop db (d # ds) st =
     (case simpleDetectionStep db d st of Inl e \<Rightarrow> Inl e | Inr st' \<Rightarrow> simpleLoop db ds st')"

definition matchToDatabase_simple :: "entry list \<Rightarrow> detection list \<Rightarrow> error + simpleMatch option" where
  "matchToDatabase_simple db detections =
     (case simpleLoop db detections (None, 0) of Inl e \<Rightarrow> Inl e | Inr st \<Rightarrow> Inr (fst st))"

subsection \<open>The instruction synthesizer\<close>

text \<open>\<^verbatim>\<open>table[key] || fallback\<close> on a literal table whose values are all truthy.\<close>

definition lookupOr :: "(string \<times> 'a) list \<Rightarrow> string \<Rightarrow> 'a \<Rightarrow> 'a" where
  "lookupOr table k fallback = (case map_of table k of Some v \<Rightarrow> v | None \<Rightarrow> fallback)"

definition categoryMapping :: "(string \<times> string) list" where
  "categoryMapping =
     [(''mobile phone'', ''Electronics''), (''smartphone'', ''Electronics''),
      (''telephone'', ''Electronics''), (''computer'', ''Electronics''),
      (''laptop'', ''Electronics''), (''tablet'', ''Electronics''),
      (''camera'', ''Electronics''), (''television'', ''Electronics''),
      (''speaker'', ''Electronics''),
      (''knife'', ''Kitchen Tools''), (''kitchen knife'', ''Kitchen Tools''),
      (''spoon'', ''Kitchen Tools''), (''fork'', ''Kitchen Tools''),
      (''spatula'', ''Kitchen Tools''), (''whisk'', ''Kitchen Tools''),
      (''cutting board'', ''Kitchen Tools''),
      (''coffee maker'', ''Appliances''), (''microwave'', ''Appliances''),
      (''toaster'', ''Appliances''), (''blender'', ''Appliances''),
      (''washing machine'', ''Appliances''), (''refrigerator'', ''Appliances''),
      (''dishwasher'', ''Appliances''),
      (''hammer'', ''Hand Tools''), (''screwdriver'', ''Hand Tools''),
      (''wrench'', ''Hand Tools''), (''drill'', ''Power Tools''),
      (''saw'', ''Power Tools''), (''pliers'', ''Hand Tools''),
      (''plant'', ''Plants''), (''flower'', ''Plants''), (''tree'', ''Plants''),
      (''succulent'', ''Plants''), (''houseplant'', ''Plants''),
      (''bicycle'', ''Sports Equipment''), (''ball'', ''Sports Equipment''),
      (''racket'', ''Sports Equipment''), (''dumbbell'', ''Sports Equipment''),
      (''fire extinguisher'', ''Safety Equipment''),
      (''first aid kit'', ''Safety Equipment''), (''helmet'', ''Safety Equipment'')]"

text \<open>
  The label-keyed tables are object literals, so a lookup also finds the members they inherit.
  After \<^verbatim>\<open>toLowerCase\<close> only two inherited names can be hit; for both the inherited value is
  truthy and not iterable.
\<close>

definition inheritedKeys :: "string list" where
  "inheritedKeys = [''constructor'', ''__proto__'']"

definition formatObjectName :: "string \<Rightarrow> string" where
  "formatObjectName label =
     join '' '' (map (\<lambda>word. (case word of [] \<Rightarrow> [] | c # cs \<Rightarrow> toUpperChar c # cs))
                     (split_on CHR '' '' label))"

text \<open>
  \<^verbatim>\<open>[...words, ...(synonyms[label.toLowerCase()] || [])]\<close>: spreading an inherited member
  throws.
\<close>

definition generateTags :: "string \<Rightarrow> error + string list" where
  "generateTags label =
     (let wds = split_on CHR '' '' (toLowerCase label);
          synonyms =
            [(''mobile phone'', [''smartphone'', ''cell phone'', ''phone'', ''device'']),
             (''knife'', [''blade'', ''cutting tool'', ''kitchen knife'']),
             (''computer'', [''laptop'', ''pc'', ''desktop'', ''device'']),
             (''plant'', [''houseplant'', ''green'', ''botanical''])]
      in if toLowerCase label \<in> set inheritedKeys then Inl TypeError
         else Inr (wds @ lookupOr synonyms (toLowerCase label) []))"

definition generateDescription :: "string \<Rightarrow> string \<Rightarrow> string" where
  "generateDescription label cat =
     (let templates =
        [(''Electronics'', ''A '' @ label @ '' commonly used for communication, entertainment, or productivity tasks.''),
         (''Kitchen Tools'', ''A '' @ label @ '' used for food preparation and cooking tasks.''),
         (''Appliances'', ''A '' @ label @ '' household appliance for daily living tasks.''),
         (''Hand Tools'', ''A '' @ label @ '' manual tool for various repair and construction tasks.''),
         (''Power Tools'', ''A '' @ label @ '' power tool for construction, repair, and DIY projects.''),
         (''Plants'', ''A '' @ label @ '' that requires care, watering, and proper lighting conditions.''),
         (''Sports Equipment'', ''A '' @ label @ '' used for athletic activities and exercise.''),
         (''Safety Equipment'', ''A '' @ label @ '' designed for protection and emergency situations.''),
         (''General Items'', ''A '' @ label @ '' with various practical applications.'')]
      in lookupOr templates cat (''A '' @ label @ '' with various practical applications.''))"

definition getDifficultyLevel :: "string \<Rightarrow> string" where
  "getDifficultyLevel cat =
     lookupOr [(''Electronics'', ''Beginner''), (''Kitchen Tools'', ''Intermediate''),
               (''Appliances'', ''Beginner''), (''Hand Tools'', ''Beginner''),
               (''Power Tools'', ''Intermediate''), (''Plants'', ''Beginner''),
               (''Sports Equipment'', ''Beginner''), (''Safety Equipment'', ''Intermediate'')]
              cat ''Beginner''"

definition getTimeEstimate :: "string \<Rightarrow> string" where
  "getTimeEstimate cat =
     lookupOr [(''Electronics'', ''5-15 min''), (''Kitchen Tools'', ''5-10 min''),
               (''Appliances'', ''10-30 min''), (''Hand Tools'', ''2-5 min''),
               (''Power Tools'', ''10-20 min''), (''Plants'', ''5-10 min daily''),
               (''Sports Equipment'', ''15-30 min''), (''Safety Equipment'', ''5-10 min'')]
              cat ''5-10 min''"

definition getSafetyLevel :: "string \<Rightarrow> string \<Rightarrow> string" where
  "getSafetyLevel label cat =
     (let dangerousItems = [''knife'', ''saw'', ''drill'', ''fire'', ''chemical''];
          isDangerous = list_ex (\<lambda>item. str_includes (toLowerCase label) item) dangerousItems
      in if isDangerous then ''high''
         else if cat = ''Power Tools'' then ''medium''
         else if cat = ''Safety Equipment'' then ''medium''
         else ''low'')"

text \<open>
  The remaining label-keyed lookups are reached only after \<^const>\<open>generateTags\<close> has returned,
  that is, for labels outside \<^const>\<open>inheritedKeys\<close>.
\<close>

definition generateCommonUses :: "string \<Rightarrow> string list" where
  "generateCommonUses label =
     lookupOr [(''mobile phone'', [''Making calls'', ''Sending messages'', ''Internet browsing'', ''Taking photos'']),
               (''knife'', [''Cutting food'', ''Chopping vegetables'', ''Food preparation'']),
               (''computer'', [''Work tasks'', ''Entertainment'', ''Communication'', ''Learning'']),
               (''plant'', [''Air purification'', ''Home decoration'', ''Stress relief''])]
              (toLowerCase label) [''Using '' @ label, ''General purpose tasks'']"

definition generateMaterials :: "string \<Rightarrow> string \<Rightarrow> string list" where
  "generateMaterials label cat =
     lookupOr [(''Electronics'', [''Plastic housing'', ''Electronic components'', ''Battery'']),
               (''Kitchen Tools'', [''Stainless steel'', ''Plastic handle'']),
               (''Appliances'', [''Metal housing'', ''Electronic controls'']),
               (''Plants'', [''Soil'', ''Pot'', ''Water''])]
              cat [''Various materials'']"

definition generateWarnings :: "string \<Rightarrow> string \<Rightarrow> string list" where
  "generateWarnings label cat =
     lookupOr [(''knife'', [''Keep blade sharp and clean'', ''Always cut away from body'', ''Store safely'']),
               (''mobile phone'', [''Avoid water damage'', ''Don'' @ [CHR 0x27] @ ''t use while driving'',
                                   ''Keep away from extreme heat'']),
               (''computer'', [''Ensure proper ventilation'', ''Use surge protection'', ''Keep liquids away'']),
               (''plant'', [''Check for toxicity to pets'', ''Avoid overwatering'', ''Provide adequate light''])]
              (toLowerCase label) [''Use as intended'', ''Follow safety guidelines'']"

datatype instruction =
  Instruction (title: string) (idescription: string) (itimeEstimate: string) (substeps: "string list")

definition generateBasicInstructions :: "string \<Rightarrow> string \<Rightarrow> instruction list" where
  "generateBasicInstructions label cat =
     [Instruction ''Basic Setup''
        (''Learn how to properly set up and prepare your '' @ label)
        ''5 min''
        [''Inspect the '' @ label @ '' for any damage'',
         ''Read any included instructions or labels'',
         ''Ensure you have proper lighting and space'',
         ''Gather any additional tools needed''],
      Instruction ''Safe Operation''
        (''How to use your '' @ label @ '' safely and effectively'')
        ''10 min''
        [''Follow proper safety precautions'',
         ''Use the '' @ label @ '' as intended'',
         ''Monitor for any issues during use'',
         ''Stop if anything seems unsafe'']]"

definition generateMaintenance :: "string \<Rightarrow> string \<Rightarrow> string list" where
  "generateMaintenance label cat =
     lookupOr [(''Electronics'', [''Keep clean and dry'', ''Update software regularly'', ''Store properly'']),
               (''Kitchen Tools'', [''Clean after each use'', ''Dry thoroughly'', ''Store safely'']),
               (''Plants'', [''Water regularly'', ''Prune as needed'', ''Check for pests''])]
              cat [''Clean regularly'', ''Store properly'', ''Inspect for damage'']"

definition generateStorage :: "string \<Rightarrow> string \<Rightarrow> string" where
  "generateStorage label cat =
     lookupOr [(''Electronics'', ''Store in dry place away from extreme temperatures''),
               (''Kitchen Tools'', ''Store in knife block or secure drawer''),
               (''Plants'', ''Keep in appropriate lighting conditions'')]
              cat ''Store in clean, dry place when not in use''"

definition getLifespan :: "string \<Rightarrow> string" where
  "getLifespan cat =
     lookupOr [(''Electronics'', ''3-5 years average''),
               (''Kitchen Tools'', ''5-10 years with proper care''),
               (''Appliances'', ''10-15 years with maintenance''),
               (''Plants'', ''Varies by species and care'')]
              cat ''5+ years with proper care''"

record ageRestriction =
  minimumAge :: string
  supervisionRequired :: bool
  supervisionAge :: "string option"
  ar_notes :: "string option"

definition getAgeRestrictions :: "string \<Rightarrow> ageRestriction" where
  "getAgeRestrictions cat =
     lookupOr [(''Kitchen Tools'', \<lparr>minimumAge = ''12 years'', supervisionRequired = True,
                                     supervisionAge = Some ''16'', ar_notes = None\<rparr>),
               (''Power Tools'', \<lparr>minimumAge = ''16 years'', supervisionRequired = True,
                                   supervisionAge = Some ''18'', ar_notes = None\<rparr>),
               (''Safety Equipment'', \<lparr>minimumAge = ''10 years'', supervisionRequired = True,
                                        supervisionAge = Some ''14'', ar_notes = None\<rparr>)]
              cat \<lparr>minimumAge = ''8 years'', supervisionRequired = False, supervisionAge = None,
                    ar_notes = Some ''Adult guidance recommended for first use''\<rparr>"

text \<open>
  The synthesized record. Field names carry the prefix \<open>syn_\<close>; \<open>syn_image\<close> is always
  \<^verbatim>\<open>null\<close> in the source and is kept as a unit.
\<close>

record synthesized =
  syn_id :: string
  syn_name :: string
  syn_category :: string
  syn_tags :: "string list"
  syn_description :: string
  syn_difficulty :: string
  syn_timeEstimate :: string
  syn_safetyLevel :: string
  syn_image :: unit
  syn_commonUses :: "string list"
  syn_materials :: "string list"
  syn_generalWarnings :: "string list"
  syn_instructions :: "instruction list"
  syn_maintenance :: "string list"
  syn_storage :: string
  syn_lifespan :: string
  syn_ageRestrictions :: ageRestriction
  syn_confidence :: int
  syn_source :: string

text \<open>\<^verbatim>\<open>visionData.description || visionData.name\<close>, possibly \<^verbatim>\<open>undefined\<close>.\<close>

definition detectedLabel :: "detection \<Rightarrow> string option" where
  "detectedLabel visionData = orElse (description visionData) (dname visionData)"

text \<open>
  \<open>now\<close> is the value of \<^verbatim>\<open>Date.now()\<close> at the call. An undefined label throws at
  \<^verbatim>\<open>detectedLabel.toLowerCase()\<close>.
\<close>

definition generateInstructionsForObject :: "nat \<Rightarrow> detection \<Rightarrow> error + synthesized" where
  "generateInstructionsForObject now visionData =
     (case detectedLabel visionData of
        None \<Rightarrow> Inl TypeError
      | Some label \<Rightarrow>
          (let conf = round (confidenceOf visionData * 100);
               cat = lookupOr categoryMapping (toLowerCase label) ''General Items''
           in case generateTags label of
                Inl e \<Rightarrow> Inl e
              | Inr tgs \<Rightarrow>
                  Inr \<lparr>syn_id = ''vision-'' @ decimal now,
                       syn_name = formatObjectName label,
                       syn_category = cat,
                       syn_tags = tgs,
                       syn_description = generateDescription label cat,
                       syn_difficulty = getDifficultyLevel cat,
                       syn_timeEstimate = getTimeEstimate cat,
                       syn_safetyLevel = getSafetyLevel label cat,
                       syn_image = (),
                       syn_commonUses = generateCommonUses label,
                       syn_materials = generateMaterials label cat,
                       syn_generalWarnings = generateWarnings label cat,
                       syn_instructions = generateBasicInstructions label cat,
                       syn_maintenance = generateMaintenance label cat,
                       syn_storage = generateStorage label cat,
                       syn_lifespan = getLifespan cat,
                       syn_ageRestrictions = getAgeRestrictions cat,
                       syn_confidence = conf,
                       syn_source = ''Google Vision API''\<rparr>))"

subsection \<open>The recognition orchestrator\<close>

text \<open>
  What \<^verbatim>\<open>performObjectRecognition\<close> can return: the matcher's object, the object built
  around a synthesized entry (\<^verbatim>\<open>source: 'dynamic'\<close>), or an object of the demo path with
  its \<^verbatim>\<open>object\<close> (possibly \<^verbatim>\<open>null\<close> or \<^verbatim>\<open>undefined\<close>), \<^verbatim>\<open>confidence\<close> and \<^verbatim>\<open>message\<close>.
\<close>

datatype recognition =
  Matched matchResult
| Dynamic synthesized int
| Demo "entry option" int string

text \<open>One element of \<^verbatim>\<open>result.responses\<close>; either annotation list may be absent.\<close>

record annotateResponse =
  labelAnnotations :: "detection list option"
  localizedObjectAnnotations :: "detection list option"

text \<open>
  The outcome of the provider round trip: \<^verbatim>\<open>fetch\<close> rejects, the response is not
  \<^verbatim>\<open>ok\<close> (status and body text), \<^verbatim>\<open>response.json()\<close> rejects, or the parsed body with its
  \<^verbatim>\<open>responses\<close> property (possibly absent).
\<close>

datatype provider =
  FetchRejected error
| NotOk nat string
| JsonRejected error
| Json "annotateResponse list option"

definition orEmpty :: "'a list option \<Rightarrow> 'a list" where
  "orEmpty v = (case v of None \<Rightarrow> [] | Some xs \<Rightarrow> xs)"

text \<open>\<^verbatim>\<open>bestDetection && bestDetection.score > 0.5\<close> for \<^verbatim>\<open>bestDetection = labels[0]\<close>.\<close>

definition usable :: "detection list \<Rightarrow> bool" where
  "usable labels =
     (case labels of [] \<Rightarrow> False
      | bestDetection # _ \<Rightarrow> (case score bestDetection of None \<Rightarrow> False | Some s \<Rightarrow> s > 0.5))"

text \<open>The block guarded by \<^verbatim>\<open>result.responses && result.responses[0]\<close>, up to its fall-through.\<close>

definition processResponse ::
  "entry list \<Rightarrow> nat \<Rightarrow> annotateResponse \<Rightarrow> error + recognition option" where
  "processResponse db now r =
     (let labels = orEmpty (labelAnnotations r);
          objects = orEmpty (localizedObjectAnnotations r);
          databaseMatch = matchToDatabase db (labels @ objects)
      in case (case databaseMatch of None \<Rightarrow> None
               | Some m \<Rightarrow> if confidence m > 70 then Some m else None) of
           Some m \<Rightarrow> Inr (Some (Matched m))
         | None \<Rightarrow>
             (case labels of
                [] \<Rightarrow> Inr None
              | bestDetection # _ \<Rightarrow>
                  if usable labels
                  then (case generateInstructionsForObject now bestDetection of
                          Inl e \<Rightarrow> Inl e
                        | Inr dynamicObject \<Rightarrow>
                            Inr (Some (Dynamic dynamicObject
                                         (round (confidenceOf bestDetection * 100)))))
                  else Inr None))"

text \<open>
  \<open>apiKey\<close> is \<^verbatim>\<open>process.env.REACT_APP_GOOGLE_VISION_API_KEY\<close>; the inner
  \<^verbatim>\<open>try\<close>/\<^verbatim>\<open>catch\<close> rethrows what it catches.
\<close>

definition callComputerVisionAPI ::
  "entry list \<Rightarrow> nat \<Rightarrow> string option \<Rightarrow> provider \<Rightarrow> error + recognition option" where
  "callComputerVisionAPI db now apiKey prov =
     (if \<not> truthy apiKey then Inl (Error ''API key not configured'')
      else case prov of
             FetchRejected e \<Rightarrow> Inl e
           | NotOk status errorText \<Rightarrow>
               Inl (Error (''API request failed: '' @ decimal status @ '' - '' @ errorText))
           | JsonRejected e \<Rightarrow> Inl e
           | Json None \<Rightarrow> Inr None
           | Json (Some []) \<Rightarrow> Inr None
           | Json (Some (r # _)) \<Rightarrow> processResponse db now r)"

subsection \<open>The demo fallback\<close>

text \<open>
  \<^verbatim>\<open>Math.random()\<close> is a parameter: \<open>rnd i\<close> is the value of the \<open>i\<close>-th call made by
  \<^verbatim>\<open>performDemoMatching\<close>, a number in \<open>[0, 1)\<close>.
\<close>

definition unitDraws :: "(nat \<Rightarrow> real) \<Rightarrow> bool" where
  "unitDraws rnd = (0 \<le> rnd 0 \<and> rnd 0 < 1 \<and> 0 \<le> rnd 1 \<and> rnd 1 < 1 \<and> 0 \<le> rnd 2 \<and> rnd 2 < 1)"

text \<open>\<^verbatim>\<open>objectDatabase[i]\<close>: \<^verbatim>\<open>undefined\<close> outside the array.\<close>

definition at_index :: "'a list \<Rightarrow> int \<Rightarrow> 'a option" where
  "at_index xs i = (if 0 \<le> i \<and> i < int (length xs) then Some (xs ! nat i) else None)"

definition demoConfidence :: "real \<Rightarrow> int" where
  "demoConfidence r = \<lfloor>r * 30\<rfloor> + 40"

definition sizeBranch :: "entry list \<Rightarrow> string \<Rightarrow> recognition option" where
  "sizeBranch db imageData =
     (let imageSize = length imageData;
          appliances = filter (\<lambda>obj. category obj = ''Appliances'') db;
          tools = filter (\<lambda>obj. category obj = ''Hand Tools'') db
      in if imageSize > 50000 \<and> length appliances > 0
         then Some (Demo (Some (hd appliances)) 65
                      ''Demo mode: Detected based on image size analysis'')
         else if imageSize < 30000 \<and> length tools > 0
         then Some (Demo (Some (hd tools)) 70
                      ''Demo mode: Detected based on image characteristics'')
         else None)"

definition performDemoMatching :: "(nat \<Rightarrow> real) \<Rightarrow> entry list \<Rightarrow> string \<Rightarrow> recognition option" where
  "performDemoMatching rnd db imageData =
     (case sizeBranch db imageData of
        Some r \<Rightarrow> Some r
      | None \<Rightarrow>
          if rnd 0 > 0.7
          then (let randomObject = at_index db \<lfloor>rnd 1 * real (length db)\<rfloor>
                in Some (Demo randomObject (demoConfidence (rnd 2))
                           ''Demo mode: Random selection for demonstration''))
          else None)"

definition performIntelligentMatching :: "(nat \<Rightarrow> real) \<Rightarrow> entry list \<Rightarrow> string \<Rightarrow> recognition" where
  "performIntelligentMatching rnd db imageData =
     (case performDemoMatching rnd db imageData of
        Some demoMatch \<Rightarrow> demoMatch
      | None \<Rightarrow>
          Demo None 0
            ''Object not recognized. Try taking another photo with better lighting or search manually using the search tab.'')"

text \<open>
  The result type keeps the error branch so that the absence of a propagated exception is a
  statement about values.
\<close>

definition performObjectRecognition ::
  "entry list \<Rightarrow> nat \<Rightarrow> string option \<Rightarrow> provider \<Rightarrow> (nat \<Rightarrow> real) \<Rightarrow> string \<Rightarrow> error + recognition" where
  "performObjectRecognition db now apiKey prov rnd imageData =
     (case callComputerVisionAPI db now apiKey prov of
        Inr (Some realResult) \<Rightarrow> Inr realResult
      | Inr None \<Rightarrow> Inr (performIntelligentMatching rnd db imageData)
      | Inl e \<Rightarrow> Inr (performIntelligentMatching rnd db imageData))"

subsection \<open>Auxiliary notions for the proofs\<close>

text \<open>A detection survives the relevance floor.\<close>

definition relevant :: "detection \<Rightarrow> bool" where
  "relevant d = (\<not> confidenceOf d < minConfidenceThreshold)"

text \<open>
  The loop invariant of the matcher: \<^verbatim>\<open>highestScore\<close> is \<open>0\<close> until a first pair is
  recorded, and afterwards it is the recorded pair's score, above \<open>0.2\<close>, from which the
  recorded confidence was computed.
\<close>

definition consistent :: "matchState \<Rightarrow> bool" where
  "consistent st =
     (case fst st of
        None \<Rightarrow> snd st = 0
      | Some m \<Rightarrow> matchScore m = snd st \<and> snd st > 0.2
                  \<and> confidence m = min (round (snd st * 100)) 95)"

subsection \<open>Scenario data\<close>

definition phoneDetection :: detection where
  "phoneDetection = \<lparr>description = Some ''mobile phone'', dname = None, score = Some 0.9\<rparr>"

definition smartphoneEntry :: entry where
  "smartphoneEntry =
     \<lparr>name = ''Smartphone'', category = ''Electronics'', tags = [''mobile phone'']\<rparr>"

definition hammerEntry :: entry where
  "hammerEntry = \<lparr>name = ''Hammer'', category = ''Hand Tools'', tags = [''nail'']\<rparr>"

definition clawHammerEntry :: entry where
  "clawHammerEntry =
     \<lparr>name = ''Hammer'', category = ''Hand Tools'', tags = [''hammer'', ''claw hammer'']\<rparr>"

definition hammerDetection :: "real \<Rightarrow> detection" where
  "hammerDetection s = \<lparr>description = Some ''hammer'', dname = None, score = Some s\<rparr>"

definition unscored :: "string \<Rightarrow> detection" where
  "unscored l = \<lparr>description = Some l, dname = None, score = None\<rparr>"

definition spokenPhone :: detection where
  "spokenPhone = \<lparr>description = Some ''Mobile Phone'', dname = None, score = Some 0.9\<rparr>"

definition locatedPhone :: detection where
  "locatedPhone = \<lparr>description = Some [], dname = Some ''Mobile Phone'', score = Some 0.9\<rparr>"

definition phoneResponse :: annotateResponse where
  "phoneResponse = \<lparr>labelAnnotations = Some [phoneDetection], localizedObjectAnnotations = None\<rparr>"

definition hammerResponse :: "real \<Rightarrow> annotateResponse" where
  "hammerResponse s =
     \<lparr>labelAnnotations = Some [hammerDetection s], localizedObjectAnnotations = Some []\<rparr>"

text \<open>Three draws: the first takes the random branch, the last is near the top of \<open>[0, 1)\<close>.\<close>

definition topDraws :: "nat \<Rightarrow> real" where
  "topDraws i = (if i = 0 then 0.8 else if i = 1 then 0 else 0.999)"

definition smallImage :: string where
  "smallImage = ''data:image/jpeg;base64,AAAA''"

definition locatedHammer :: "real \<Rightarrow> detection" where
  "locatedHammer s = \<lparr>description = None, dname = Some ''Hammer'', score = Some s\<rparr>"

definition objectOnlyResponse :: annotateResponse where
  "objectOnlyResponse =
     \<lparr>labelAnnotations = None, localizedObjectAnnotations = Some [locatedHammer 0.6]\<rparr>"

definition mixedResponse :: annotateResponse where
  "mixedResponse =
     \<lparr>labelAnnotations = Some [hammerDetection 0.45],
      localizedObjectAnnotations = Some [locatedHammer 0.9]\<rparr>"

text \<open>A knowledge base with an appliance and a hand tool, and an image of 40000 characters.\<close>

definition coffeeMakerEntry :: entry where
  "coffeeMakerEntry =
     \<lparr>name = ''Coffee Maker'', category = ''Appliances'', tags = [''coffee'', ''brewing'']\<rparr>"

definition demoDatabase :: "entry list" where
  "demoDatabase = [coffeeMakerEntry, hammerEntry, smartphoneEntry]"

definition mediumImage :: string where
  "mediumImage = replicate 40000 (CHR ''A'')"

text \<open>Draws whose first value sits on the threshold.\<close>

definition boundaryDraws :: "nat \<Rightarrow> real" where
  "boundaryDraws i = 0.7"

section \<open>Properties of the matcher\<close>

subsection \<open>Evaluation of string operations\<close>

lemmas string_eval =
  toLowerCase_def toLowerChar_def toUpperChar_def upperLetters_def lowerLetters_def
  str_includes_def sublist_code(3)

subsection \<open>The loop invariant\<close>

lemma consistent_init: "consistent (None, 0)"
  by (simp add: consistent_def)

lemma entryStep_consistent: "consistent st \<Longrightarrow> consistent (entryStep l c obj st)"
  by (simp add: entryStep_def consistent_def Let_def)

lemma fold_entryStep_consistent:
  "consistent st \<Longrightarrow> consistent (fold (entryStep l c) db st)"
  by (induction db arbitrary: st) (simp_all add: entryStep_consistent)

lemma detectionStep_consistent: "consistent st \<Longrightarrow> consistent (detectionStep db d st)"
  by (simp add: detectionStep_def Let_def fold_entryStep_consistent)

lemma fold_detectionStep_consistent:
  "consistent st \<Longrightarrow> consistent (fold (detectionStep db) ds st)"
  by (induction ds arbitrary: st) (simp_all add: detectionStep_consistent)

text \<open>The running maximum.\<close>

lemma entryStep_snd:
  "snd (entryStep l c obj st) =
     (if pairScore l c obj > snd st \<and> pairScore l c obj > 0.2 then pairScore l c obj else snd st)"
  by (simp add: entryStep_def Let_def)

lemma fold_entryStep_mono: "snd st \<le> snd (fold (entryStep l c) db st)"
proof (induction db arbitrary: st)
  case Nil
  show ?case by simp
next
  case (Cons obj db)
  have "snd st \<le> snd (entryStep l c obj st)"
    by (simp add: entryStep_snd)
  also have "\<dots> \<le> snd (fold (entryStep l c) db (entryStep l c obj st))"
    by (rule Cons.IH)
  finally show ?case by simp
qed

lemma fold_entryStep_upper:
  "obj \<in> set db \<Longrightarrow> pairScore l c obj \<le> max (snd (fold (entryStep l c) db st)) 0.2"
proof (induction db arbitrary: st)
  case Nil
  then show ?case by simp
next
  case (Cons a db)
  show ?case
  proof (cases "obj = a")
    case True
    have "pairScore l c a \<le> max (snd (entryStep l c a st)) 0.2"
      by (auto simp add: entryStep_snd max_def)
    moreover have "snd (entryStep l c a st) \<le> snd (fold (entryStep l c) db (entryStep l c a st))"
      by (rule fold_entryStep_mono)
    ultimately show ?thesis using True by simp
  next
    case False
    with Cons.prems have "obj \<in> set db" by simp
    then show ?thesis using Cons.IH by simp
  qed
qed

lemma fold_entryStep_origin:
  "snd (fold (entryStep l c) db st) = snd st
   \<or> (\<exists>obj \<in> set db. snd (fold (entryStep l c) db st) = pairScore l c obj)"
proof (induction db arbitrary: st)
  case Nil
  show ?case by simp
next
  case (Cons a db)
  have step: "snd (entryStep l c a st) = snd st \<or> snd (entryStep l c a st) = pairScore l c a"
    by (simp add: entryStep_snd)
  from Cons.IH [of "entryStep l c a st"] step show ?case
    by auto
qed

lemma detectionStep_mono: "snd st \<le> snd (detectionStep db d st)"
  by (simp add: detectionStep_def Let_def fold_entryStep_mono)

lemma fold_detectionStep_mono: "snd st \<le> snd (fold (detectionStep db) ds st)"
proof (induction ds arbitrary: st)
  case Nil
  show ?case by simp
next
  case (Cons d ds)
  have "snd st \<le> snd (detectionStep db d st)"
    by (rule detectionStep_mono)
  also have "\<dots> \<le> snd (fold (detectionStep db) ds (detectionStep db d st))"
    by (rule Cons.IH)
  finally show ?case by simp
qed

lemma fold_detectionStep_upper:
  "d \<in> set ds \<Longrightarrow> relevant d \<Longrightarrow> obj \<in> set db \<Longrightarrow>
   pairScore (labelOf d) (confidenceOf d) obj \<le> max (snd (fold (detectionStep db) ds st)) 0.2"
proof (induction ds arbitrary: st)
  case Nil
  then show ?case by simp
next
  case (Cons a ds)
  show ?case
  proof (cases "d = a")
    case True
    have "detectionStep db a st = fold (entryStep (labelOf a) (confidenceOf a)) db st"
      using Cons.prems(2) True by (simp add: detectionStep_def relevant_def Let_def)
    then have "pairScore (labelOf a) (confidenceOf a) obj \<le> max (snd (detectionStep db a st)) 0.2"
      using fold_entryStep_upper [OF Cons.prems(3)] by simp
    moreover have "snd (detectionStep db a st) \<le> snd (fold (detectionStep db) ds (detectionStep db a st))"
      by (rule fold_detectionStep_mono)
    ultimately show ?thesis using True by simp
  next
    case False
    with Cons.prems have "d \<in> set ds" by simp
    then show ?thesis using Cons.IH Cons.prems by simp
  qed
qed

lemma detectionStep_origin:
  "snd (detectionStep db d st) = snd st
   \<or> (relevant d \<and> (\<exists>obj \<in> set db. snd (detectionStep db d st) = pairScore (labelOf d) (confidenceOf d) obj))"
  using fold_entryStep_origin [of "labelOf d" "confidenceOf d" db st]
  by (auto simp add: detectionStep_def Let_def relevant_def)

lemma fold_detectionStep_origin:
  "snd (fold (detectionStep db) ds st) = snd st
   \<or> (\<exists>d \<in> set ds. relevant d \<and> (\<exists>obj \<in> set db.
          snd (fold (detectionStep db) ds st) = pairScore (labelOf d) (confidenceOf d) obj))"
proof (induction ds arbitrary: st)
  case Nil
  show ?case by simp
next
  case (Cons a ds)
  from Cons.IH [of "detectionStep db a st"] detectionStep_origin [of db a st] show ?case
    by auto
qed

subsection \<open>The recorded match\<close>

lemma entryStep_fst:
  "fst (entryStep l c obj st) = fst st
   \<or> fst (entryStep l c obj st) =
       Some \<lparr>object = obj, confidence = min (round (pairScore l c obj * 100)) 95,
              detectedAs = l, matchScore = pairScore l c obj\<rparr>"
  by (simp add: entryStep_def Let_def)

lemma fold_entryStep_fst:
  "fst (fold (entryStep l c) db st) = fst st
   \<or> (\<exists>obj \<in> set db. fst (fold (entryStep l c) db st) =
         Some \<lparr>object = obj, confidence = min (round (pairScore l c obj * 100)) 95,
                detectedAs = l, matchScore = pairScore l c obj\<rparr>)"
proof (induction db arbitrary: st)
  case Nil
  show ?case by simp
next
  case (Cons a db)
  from Cons.IH [of "entryStep l c a st"] entryStep_fst [of l c a st] show ?case
    by auto
qed

lemma detectionStep_low: "confidenceOf d < minConfidenceThreshold \<Longrightarrow> detectionStep db d st = st"
  by (simp add: detectionStep_def Let_def)

lemma detectionStep_fst:
  "fst (detectionStep db d st) = fst st
   \<or> (relevant d \<and> (\<exists>obj \<in> set db. fst (detectionStep db d st) =
         Some \<lparr>object = obj,
                confidence = min (round (pairScore (labelOf d) (confidenceOf d) obj * 100)) 95,
                detectedAs = labelOf d,
                matchScore = pairScore (labelOf d) (confidenceOf d) obj\<rparr>))"
  using fold_entryStep_fst [of "labelOf d" "confidenceOf d" db st]
  by (auto simp add: detectionStep_def Let_def relevant_def)

lemma fold_detectionStep_fst:
  "fst (fold (detectionStep db) ds st) = fst st
   \<or> (\<exists>d \<in> set ds. relevant d \<and> (\<exists>obj \<in> set db. fst (fold (detectionStep db) ds st) =
         Some \<lparr>object = obj,
                confidence = min (round (pairScore (labelOf d) (confidenceOf d) obj * 100)) 95,
                detectedAs = labelOf d,
                matchScore = pairScore (labelOf d) (confidenceOf d) obj\<rparr>))"
proof (induction ds arbitrary: st)
  case Nil
  show ?case by simp
next
  case (Cons a ds)
  from Cons.IH [of "detectionStep db a st"] detectionStep_fst [of db a st] show ?case
    by auto
qed

lemma matchToDatabase_unfold:
  "matchToDatabase db ds =
     (let st = fold (detectionStep db) ds (None, 0)
      in if fst st = None \<or> snd st < 0.4 then None else fst st)"
  by (simp add: matchToDatabase_def Let_def split: prod.splits)

lemma matchToDatabase_SomeD:
  assumes "matchToDatabase db ds = Some m"
  shows "fst (fold (detectionStep db) ds (None, 0)) = Some m"
    and "0.4 \<le> snd (fold (detectionStep db) ds (None, 0))"
    and "matchScore m = snd (fold (detectionStep db) ds (None, 0))"
    and "confidence m = min (round (matchScore m * 100)) 95"
proof -
  let ?st = "fold (detectionStep db) ds (None, 0)"
  from assms show fst: "fst ?st = Some m" and "0.4 \<le> snd ?st"
    by (auto simp add: matchToDatabase_unfold Let_def split: if_splits)
  have "consistent ?st"
    by (rule fold_detectionStep_consistent [OF consistent_init])
  with fst show "matchScore m = snd ?st" and "confidence m = min (round (matchScore m * 100)) 95"
    by (simp_all add: consistent_def)
qed

lemma matchToDatabase_None_iff:
  "matchToDatabase db ds = None \<longleftrightarrow>
     (\<forall>d \<in> set ds. \<forall>obj \<in> set db.
        relevant d \<longrightarrow> pairScore (labelOf d) (confidenceOf d) obj < 0.4)"
proof -
  let ?st = "fold (detectionStep db) ds (None, 0)"
  have cons: "consistent ?st"
    by (rule fold_detectionStep_consistent [OF consistent_init])
  have none: "matchToDatabase db ds = None \<longleftrightarrow> snd ?st < 0.4"
    using cons by (auto simp add: matchToDatabase_unfold Let_def consistent_def split: option.splits)
  show ?thesis
  proof
    assume "matchToDatabase db ds = None"
    with none have low: "snd ?st < 0.4" by simp
    show "\<forall>d \<in> set ds. \<forall>obj \<in> set db.
            relevant d \<longrightarrow> pairScore (labelOf d) (confidenceOf d) obj < 0.4"
    proof (intro ballI impI)
      fix d obj
      assume d: "d \<in> set ds" and obj: "obj \<in> set db" and rel: "relevant d"
      from d rel obj have "pairScore (labelOf d) (confidenceOf d) obj \<le> max (snd ?st) 0.2"
        by (rule fold_detectionStep_upper)
      with low show "pairScore (labelOf d) (confidenceOf d) obj < 0.4"
        by simp
    qed
  next
    assume all: "\<forall>d \<in> set ds. \<forall>obj \<in> set db.
            relevant d \<longrightarrow> pairScore (labelOf d) (confidenceOf d) obj < 0.4"
    from fold_detectionStep_origin [of db ds "(None, 0)"] all have "snd ?st < 0.4"
      by auto
    with none show "matchToDatabase db ds = None" by simp
  qed
qed

lemma matchToDatabase_dominates:
  assumes "matchToDatabase db ds = Some m" "d \<in> set ds" "relevant d" "obj \<in> set db"
  shows "pairScore (labelOf d) (confidenceOf d) obj \<le> matchScore m"
proof -
  let ?st = "fold (detectionStep db) ds (None, 0)"
  have "pairScore (labelOf d) (confidenceOf d) obj \<le> max (snd ?st) 0.2"
    using assms(2-4) by (rule fold_detectionStep_upper [where st = "(None, 0)"])
  moreover have "0.4 \<le> snd ?st" "matchScore m = snd ?st"
    using matchToDatabase_SomeD [OF assms(1)] by simp_all
  ultimately show ?thesis by simp
qed

lemma matchToDatabase_provenance:
  assumes "matchToDatabase db ds = Some m"
  shows "\<exists>d \<in> set ds. relevant d \<and> (\<exists>obj \<in> set db.
           m = \<lparr>object = obj,
                 confidence = min (round (pairScore (labelOf d) (confidenceOf d) obj * 100)) 95,
                 detectedAs = labelOf d,
                 matchScore = pairScore (labelOf d) (confidenceOf d) obj\<rparr>)"
proof -
  let ?st = "fold (detectionStep db) ds (None, 0)"
  have "fst ?st = Some m"
    using matchToDatabase_SomeD(1) [OF assms] .
  with fold_detectionStep_fst [of db ds "(None, 0)"] show ?thesis
    by auto
qed

lemma matchToDatabase_drop_low:
  assumes "confidenceOf d < minConfidenceThreshold"
  shows "matchToDatabase db (xs @ d # ys) = matchToDatabase db (xs @ ys)"
  by (simp add: matchToDatabase_def detectionStep_low [OF assms])

subsection \<open>The smartphone scenario\<close>

lemma phoneDetection_label: "labelOf phoneDetection = ''mobile phone''"
  by (simp add: phoneDetection_def labelOf_def orElse_def truthy_def string_eval)

lemma phoneDetection_confidence: "confidenceOf phoneDetection = 0.9"
  by (simp add: phoneDetection_def confidenceOf_def)

lemma tagStep_mono: "0 \<le> c \<Longrightarrow> ms \<le> tagStep l c tag ms"
  by (simp add: tagStep_def)

lemma fold_tagStep_mono: "0 \<le> c \<Longrightarrow> ms \<le> fold (tagStep l c) ts ms"
proof (induction ts arbitrary: ms)
  case Nil
  show ?case by simp
next
  case (Cons t ts)
  have "ms \<le> tagStep l c t ms"
    using Cons.prems by (rule tagStep_mono)
  also have "\<dots> \<le> fold (tagStep l c) ts (tagStep l c t ms)"
    using Cons.prems by (rule Cons.IH)
  finally show ?case by simp
qed

lemma fold_tagStep_exact:
  "0 \<le> c \<Longrightarrow> l \<in> set ts \<Longrightarrow> ms + 0.9 * c \<le> fold (tagStep l c) ts ms"
proof (induction ts arbitrary: ms)
  case Nil
  then show ?case by simp
next
  case (Cons t ts)
  show ?case
  proof (cases "t = l")
    case True
    then have "tagStep l c t ms = ms + 0.9 * c"
      by (simp add: tagStep_def)
    moreover have "tagStep l c t ms \<le> fold (tagStep l c) ts (tagStep l c t ms)"
      using Cons.prems(1) by (rule fold_tagStep_mono)
    ultimately show ?thesis by simp
  next
    case False
    with Cons.prems have "l \<in> set ts" by simp
    with Cons.prems(1) have "tagStep l c t ms + 0.9 * c \<le> fold (tagStep l c) ts (tagStep l c t ms)"
      by (rule Cons.IH)
    moreover have "ms \<le> tagStep l c t ms"
      using Cons.prems(1) by (rule tagStep_mono)
    ultimately show ?thesis by simp
  qed
qed

lemma categoryStep_mono: "0 \<le> c \<Longrightarrow> ms \<le> categoryStep l c cat ms"
  by (simp add: categoryStep_def)

lemma nameStep_smartphone: "nameStep ''mobile phone'' c ''smartphone'' ms = ms"
  by (simp add: nameStep_def string_eval)

lemma keywords_smartphone:
  "''mobile phone'' \<in> set ts \<Longrightarrow>
   fold (keywordStep ''mobile phone'' c ''smartphone'' ts) keywordMappings ms
     = ms + 0.6 * c + 0.6 * c"
  by (simp add: keywordMappings_def keywordStep_def string_eval)

lemma lower_smartphone: "toLowerCase ''Smartphone'' = ''smartphone''"
  by (simp add: string_eval)

lemma lower_mobile_phone: "toLowerCase ''mobile phone'' = ''mobile phone''"
  by (simp add: string_eval)

lemma pairScore_smartphone:
  assumes "name e = ''Smartphone''" and "''mobile phone'' \<in> set (tags e)" and "0 \<le> c"
  shows "0.9 * c + 0.6 * c + 0.6 * c \<le> pairScore ''mobile phone'' c e"
proof -
  let ?ts = "map toLowerCase (tags e)"
  have mem: "''mobile phone'' \<in> set ?ts"
    using assms(2) lower_mobile_phone by force
  have "0 + 0.9 * c \<le> fold (tagStep ''mobile phone'' c) ?ts 0"
    using assms(3) mem by (rule fold_tagStep_exact)
  also have "\<dots> \<le> categoryStep ''mobile phone'' c (toLowerCase (category e))
                      (fold (tagStep ''mobile phone'' c) ?ts 0)"
    using assms(3) by (rule categoryStep_mono)
  finally have "0.9 * c \<le> categoryStep ''mobile phone'' c (toLowerCase (category e))
                      (fold (tagStep ''mobile phone'' c) ?ts 0)"
    by simp
  then show ?thesis
    by (simp add: pairScore_def Let_def assms(1) lower_smartphone nameStep_smartphone
        keywords_smartphone [OF mem])
qed

lemma pairScore_smartphoneEntry:
  "pairScore ''mobile phone'' 0.9 smartphoneEntry = 1.89"
  by (simp add: pairScore_def smartphoneEntry_def nameStep_def tagStep_def categoryStep_def
      keywordStep_def keywordMappings_def string_eval)

lemma matchToDatabase_smartphoneEntry:
  "matchToDatabase [smartphoneEntry] [phoneDetection]
     = Some \<lparr>object = smartphoneEntry, confidence = 95, detectedAs = ''mobile phone'',
              matchScore = 1.89\<rparr>"
  by (simp add: matchToDatabase_def detectionStep_def entryStep_def minConfidenceThreshold_def
      phoneDetection_label phoneDetection_confidence pairScore_smartphoneEntry Let_def)


subsection \<open>Evaluation on the scenario data\<close>

lemma hammerDetection_label: "labelOf (hammerDetection s) = ''hammer''"
  by (simp add: hammerDetection_def labelOf_def orElse_def truthy_def string_eval)

lemma hammerDetection_confidence: "confidenceOf (hammerDetection s) = s"
  by (simp add: hammerDetection_def confidenceOf_def)

lemma pairScore_hammerEntry: "pairScore ''hammer'' c hammerEntry = c"
  by (simp add: pairScore_def hammerEntry_def nameStep_def tagStep_def categoryStep_def
      keywordStep_def keywordMappings_def string_eval)

lemma pairScore_clawHammerEntry:
  "pairScore ''hammer'' c clawHammerEntry = 1.0 * c + 0.9 * c + 0.5 * c"
  by (simp add: pairScore_def clawHammerEntry_def nameStep_def tagStep_def categoryStep_def
      keywordStep_def keywordMappings_def string_eval)

lemma matchToDatabase_single:
  "matchToDatabase [obj] [d] =
     (if confidenceOf d < 0.3 then None
      else if pairScore (labelOf d) (confidenceOf d) obj < 0.4 then None
      else Some \<lparr>object = obj,
                  confidence = min (round (pairScore (labelOf d) (confidenceOf d) obj * 100)) 95,
                  detectedAs = labelOf d,
                  matchScore = pairScore (labelOf d) (confidenceOf d) obj\<rparr>)"
  by (simp add: matchToDatabase_def detectionStep_def entryStep_def minConfidenceThreshold_def
      Let_def)

section \<open>The claims about the matcher\<close>

text \<open>
  The smartphone scenario evaluated on the entry with the single tag: the pair accumulates
  \<open>1.89\<close>, not \<open>0.81\<close>, and the confidence is \<open>95\<close>, not \<open>81\<close>.
\<close>

theorem smartphone_scenario_not_81:
  "pairScore (labelOf phoneDetection) (confidenceOf phoneDetection) smartphoneEntry \<noteq> 0.9 * 0.9
   \<and> map_option confidence (matchToDatabase [smartphoneEntry] [phoneDetection]) \<noteq> Some 81"
  by (simp add: phoneDetection_label phoneDetection_confidence pairScore_smartphoneEntry
      matchToDatabase_smartphoneEntry)

text \<open>
  C1, as the source has it. For the detection list \<open>[{label: "mobile phone", score: 0.9}]\<close>
  and a knowledge base that holds an entry named "Smartphone" whose tags contain
  "mobile phone", the score accumulated for that pair is at least
  \<open>0.9 \<times> 0.9 + 0.6 \<times> 0.9 + 0.6 \<times> 0.9 = 1.89\<close>: the exact tag match and the two keyword
  mappings with keys "mobile phone" and "smartphone". The matcher returns a result, and its
  confidence is the ceiling \<open>95\<close>.
\<close>

theorem smartphone_scenario:
  assumes "name e = ''Smartphone''" and "''mobile phone'' \<in> set (tags e)" and "e \<in> set db"
  shows "0.9 * 0.9 + 0.6 * 0.9 + 0.6 * 0.9
           \<le> pairScore (labelOf phoneDetection) (confidenceOf phoneDetection) e
         \<and> (\<exists>m. matchToDatabase db [phoneDetection] = Some m \<and> confidence m = 95)"
proof -
  have score: "0.9 * 0.9 + 0.6 * 0.9 + 0.6 * 0.9 \<le> pairScore ''mobile phone'' 0.9 e"
    using pairScore_smartphone [OF assms(1,2), of "0.9"] by simp
  have rel: "relevant phoneDetection"
    by (simp add: relevant_def phoneDetection_confidence minConfidenceThreshold_def)
  have "matchToDatabase db [phoneDetection] \<noteq> None"
  proof
    assume "matchToDatabase db [phoneDetection] = None"
    then have "pairScore (labelOf phoneDetection) (confidenceOf phoneDetection) e < 0.4"
      using assms(3) rel by (simp add: matchToDatabase_None_iff)
    with score show False
      by (simp add: phoneDetection_label phoneDetection_confidence)
  qed
  then obtain m where m: "matchToDatabase db [phoneDetection] = Some m"
    by auto
  have "pairScore (labelOf phoneDetection) (confidenceOf phoneDetection) e \<le> matchScore m"
    using m _ rel assms(3) by (rule matchToDatabase_dominates) simp
  with score have "1.89 \<le> matchScore m"
    by (simp add: phoneDetection_label phoneDetection_confidence)
  then have "189 \<le> matchScore m * 100"
    by simp
  then have "round (189::real) \<le> round (matchScore m * 100)"
    by (rule round_mono)
  then have "95 \<le> round (matchScore m * 100)"
    by simp
  with matchToDatabase_SomeD(4) [OF m] have "confidence m = 95"
    by simp
  with m score show ?thesis
    by (simp add: phoneDetection_label phoneDetection_confidence)
qed

theorem smartphone_scenario_witness:
  "name smartphoneEntry = ''Smartphone'' \<and> ''mobile phone'' \<in> set (tags smartphoneEntry)
   \<and> smartphoneEntry \<in> set [smartphoneEntry]
   \<and> 0.9 * 0.9 + 0.6 * 0.9 + 0.6 * 0.9
           \<le> pairScore (labelOf phoneDetection) (confidenceOf phoneDetection) smartphoneEntry
   \<and> (\<exists>m. matchToDatabase [smartphoneEntry] [phoneDetection] = Some m \<and> confidence m = 95)"
proof -
  have a: "name smartphoneEntry = ''Smartphone''" by (simp add: smartphoneEntry_def)
  have b: "''mobile phone'' \<in> set (tags smartphoneEntry)" by (simp add: smartphoneEntry_def)
  have c: "smartphoneEntry \<in> set [smartphoneEntry]" by simp
  from smartphone_scenario [OF a b c] a b c show ?thesis by simp
qed

text \<open>
  A pair whose score is exactly \<open>0.4\<close> is accepted: the guard of the source is
  \<^verbatim>\<open>highestScore < 0.4\<close>.
\<close>

theorem acceptance_floor_boundary_accepted:
  "pairScore (labelOf (hammerDetection 0.4)) (confidenceOf (hammerDetection 0.4)) hammerEntry \<le> 0.4
   \<and> matchToDatabase [hammerEntry] [hammerDetection 0.4]
       = Some \<lparr>object = hammerEntry, confidence = 40, detectedAs = ''hammer'', matchScore = 0.4\<rparr>"
  by (simp add: matchToDatabase_single hammerDetection_label hammerDetection_confidence
      pairScore_hammerEntry)

text \<open>
  C2, as the source has it. The matcher returns no match exactly when every pair of a
  detection that survives the relevance floor and an entry has an accumulated score strictly
  below \<open>0.4\<close>. A returned result carries the score of the best pair, which is at least
  \<open>0.4\<close> and not exceeded by any other pair.
\<close>

theorem matchToDatabase_acceptance_floor:
  "(matchToDatabase db ds = None \<longleftrightarrow>
      (\<forall>d \<in> set ds. \<forall>obj \<in> set db.
         relevant d \<longrightarrow> pairScore (labelOf d) (confidenceOf d) obj < 0.4))
   \<and> (\<forall>m. matchToDatabase db ds = Some m \<longrightarrow>
          0.4 \<le> matchScore m
          \<and> (\<forall>d \<in> set ds. \<forall>obj \<in> set db.
                relevant d \<longrightarrow> pairScore (labelOf d) (confidenceOf d) obj \<le> matchScore m))"
proof (intro conjI allI impI ballI)
  show "matchToDatabase db ds = None \<longleftrightarrow>
      (\<forall>d \<in> set ds. \<forall>obj \<in> set db.
         relevant d \<longrightarrow> pairScore (labelOf d) (confidenceOf d) obj < 0.4)"
    by (rule matchToDatabase_None_iff)
next
  fix m
  assume "matchToDatabase db ds = Some m"
  then show "0.4 \<le> matchScore m"
    using matchToDatabase_SomeD(2,3) by simp
next
  fix m d obj
  assume "matchToDatabase db ds = Some m" and "d \<in> set ds" and "obj \<in> set db" and "relevant d"
  then show "pairScore (labelOf d) (confidenceOf d) obj \<le> matchScore m"
    by (simp add: matchToDatabase_dominates)
qed

theorem matchToDatabase_acceptance_floor_witness:
  "relevant (hammerDetection 0.39)
   \<and> pairScore (labelOf (hammerDetection 0.39)) (confidenceOf (hammerDetection 0.39)) hammerEntry < 0.4
   \<and> matchToDatabase [hammerEntry] [hammerDetection 0.39] = None
   \<and> matchToDatabase [hammerEntry] [hammerDetection 0.4] \<noteq> None
   \<and> 0.4 \<le> matchScore (the (matchToDatabase [hammerEntry] [hammerDetection 0.4]))"
proof -
  have rel: "relevant (hammerDetection 0.39)"
    by (simp add: relevant_def hammerDetection_confidence minConfidenceThreshold_def)
  have low: "pairScore (labelOf (hammerDetection 0.39)) (confidenceOf (hammerDetection 0.39))
               hammerEntry < 0.4"
    by (simp add: hammerDetection_label hammerDetection_confidence pairScore_hammerEntry)
  have rel': "relevant (hammerDetection 0.4)"
    by (simp add: relevant_def hammerDetection_confidence minConfidenceThreshold_def)
  have high: "\<not> pairScore (labelOf (hammerDetection 0.4)) (confidenceOf (hammerDetection 0.4))
               hammerEntry < 0.4"
    by (simp add: hammerDetection_label hammerDetection_confidence pairScore_hammerEntry)
  have none: "matchToDatabase [hammerEntry] [hammerDetection 0.39] = None"
    using matchToDatabase_acceptance_floor [of "[hammerEntry]" "[hammerDetection 0.39]"] low
    by simp
  have some: "matchToDatabase [hammerEntry] [hammerDetection 0.4] \<noteq> None"
    using matchToDatabase_acceptance_floor [of "[hammerEntry]" "[hammerDetection 0.4]"] rel' high
    by simp
  then have "0.4 \<le> matchScore (the (matchToDatabase [hammerEntry] [hammerDetection 0.4]))"
    using matchToDatabase_acceptance_floor [of "[hammerEntry]" "[hammerDetection 0.4]"]
    by auto
  with rel low none some show ?thesis
    by simp
qed

text \<open>
  C3. Whenever the matcher returns a result, its confidence is an integer between \<open>0\<close> and
  \<open>95\<close>: it is \<open>round (score \<times> 100)\<close> cut off at \<open>95\<close>, and it is \<open>95\<close> whenever
  the accumulated score exceeds \<open>0.95\<close>.
\<close>

theorem matchToDatabase_confidence_range:
  assumes "matchToDatabase db ds = Some m"
  shows "0 \<le> confidence m \<and> confidence m \<le> 95
         \<and> confidence m = min (round (matchScore m * 100)) 95
         \<and> (0.95 < matchScore m \<longrightarrow> confidence m = 95)"
proof -
  have conf: "confidence m = min (round (matchScore m * 100)) 95"
    using assms by (rule matchToDatabase_SomeD(4))
  have "0.4 \<le> matchScore m"
    using matchToDatabase_SomeD(2,3) [OF assms] by simp
  then have "40 \<le> matchScore m * 100"
    by simp
  then have "round (40::real) \<le> round (matchScore m * 100)"
    by (rule round_mono)
  then have lower: "0 \<le> round (matchScore m * 100)"
    by simp
  have clamp: "confidence m = 95" if "0.95 < matchScore m"
  proof -
    from that have "95 \<le> matchScore m * 100"
      by simp
    then have "round (95::real) \<le> round (matchScore m * 100)"
      by (rule round_mono)
    with conf show ?thesis
      by simp
  qed
  from conf lower clamp show ?thesis
    by simp
qed

theorem matchToDatabase_confidence_range_witness:
  "matchToDatabase [smartphoneEntry] [phoneDetection]
     = Some \<lparr>object = smartphoneEntry, confidence = 95, detectedAs = ''mobile phone'',
              matchScore = 1.89\<rparr>
   \<and> 0 \<le> confidence (the (matchToDatabase [smartphoneEntry] [phoneDetection]))
   \<and> confidence (the (matchToDatabase [smartphoneEntry] [phoneDetection])) \<le> 95
   \<and> 0.95 < matchScore (the (matchToDatabase [smartphoneEntry] [phoneDetection]))
   \<and> confidence (the (matchToDatabase [smartphoneEntry] [phoneDetection])) = 95"
  using matchToDatabase_confidence_range [OF matchToDatabase_smartphoneEntry]
    matchToDatabase_smartphoneEntry
  by simp

text \<open>
  C5. A detection whose score is below \<open>0.3\<close> (a missing score counts as \<open>0\<close>) leaves the
  loop state as it was, so removing it from the detection list does not change the result;
  and the detection of a returned pair is always one whose score is not below \<open>0.3\<close>.
\<close>

theorem matchToDatabase_ignores_low_scores:
  "(confidenceOf d < 0.3 \<longrightarrow>
      detectionStep db d st = st
      \<and> matchToDatabase db (xs @ d # ys) = matchToDatabase db (xs @ ys))
   \<and> (score d = None \<longrightarrow> confidenceOf d < 0.3)
   \<and> (\<forall>m. matchToDatabase db ds = Some m \<longrightarrow>
         (\<exists>w \<in> set ds. \<not> confidenceOf w < 0.3 \<and> detectedAs m = labelOf w
            \<and> object m \<in> set db
            \<and> matchScore m = pairScore (labelOf w) (confidenceOf w) (object m)))"
proof (intro conjI allI impI)
  assume low: "confidenceOf d < 0.3"
  then show "detectionStep db d st = st"
    by (simp add: detectionStep_low minConfidenceThreshold_def)
  from low show "matchToDatabase db (xs @ d # ys) = matchToDatabase db (xs @ ys)"
    by (simp add: matchToDatabase_drop_low minConfidenceThreshold_def)
next
  assume "score d = None"
  then show "confidenceOf d < 0.3"
    by (simp add: confidenceOf_def)
next
  fix m
  assume "matchToDatabase db ds = Some m"
  from matchToDatabase_provenance [OF this] show
    "\<exists>w \<in> set ds. \<not> confidenceOf w < 0.3 \<and> detectedAs m = labelOf w
        \<and> object m \<in> set db
        \<and> matchScore m = pairScore (labelOf w) (confidenceOf w) (object m)"
    by (auto simp add: relevant_def minConfidenceThreshold_def)
qed

theorem matchToDatabase_ignores_low_scores_witness:
  "confidenceOf (hammerDetection 0.29) < 0.3
   \<and> detectionStep [clawHammerEntry] (hammerDetection 0.29) (None, 0) = (None, 0)
   \<and> matchToDatabase [smartphoneEntry, clawHammerEntry] ([] @ hammerDetection 0.29 # [phoneDetection])
       = matchToDatabase [smartphoneEntry, clawHammerEntry] ([] @ [phoneDetection])
   \<and> score (unscored ''hammer'') = None \<and> confidenceOf (unscored ''hammer'') < 0.3
   \<and> matchToDatabase [smartphoneEntry] [phoneDetection]
       = Some \<lparr>object = smartphoneEntry, confidence = 95, detectedAs = ''mobile phone'',
                matchScore = 1.89\<rparr>
   \<and> \<not> confidenceOf phoneDetection < 0.3"
proof -
  have low: "confidenceOf (hammerDetection 0.29) < 0.3"
    by (simp add: hammerDetection_confidence)
  have none: "score (unscored ''hammer'') = None"
    by (simp add: unscored_def)
  note thm1 = matchToDatabase_ignores_low_scores
      [of "hammerDetection 0.29" "[clawHammerEntry]" "(None, 0)" "[]" "[phoneDetection]"]
  note thm2 = matchToDatabase_ignores_low_scores
      [of "hammerDetection 0.29" "[smartphoneEntry, clawHammerEntry]" "(None, 0)" "[]" "[phoneDetection]"]
  note thm3 = matchToDatabase_ignores_low_scores
      [of "unscored ''hammer''" "[smartphoneEntry]" "(None, 0)" "[]" "[]" "[phoneDetection]"]
  from thm1 low have a: "detectionStep [clawHammerEntry] (hammerDetection 0.29) (None, 0) = (None, 0)"
    by blast
  from thm2 low have b:
    "matchToDatabase [smartphoneEntry, clawHammerEntry] ([] @ hammerDetection 0.29 # [phoneDetection])
       = matchToDatabase [smartphoneEntry, clawHammerEntry] ([] @ [phoneDetection])"
    by blast
  from thm3 none have c: "confidenceOf (unscored ''hammer'') < 0.3"
    by blast
  from thm3 matchToDatabase_smartphoneEntry have d: "\<not> confidenceOf phoneDetection < 0.3"
    by auto
  from low a b none c d matchToDatabase_smartphoneEntry show ?thesis
    by simp
qed

text \<open>
  C10. The matcher is a total function on detections with missing fields, with no error
  branch: no operation of its body can throw on such a record. A detection without
  description and name has the empty label; a detection without score has confidence \<open>0\<close>
  and is skipped; a list of detections that all lack a score, and the empty list, give no
  match.
\<close>

theorem matchToDatabase_total_on_malformed:
  "(description d = None \<and> dname d = None \<longrightarrow> labelOf d = [])
   \<and> (score d = None \<longrightarrow> confidenceOf d = 0 \<and> detectionStep db d st = st)
   \<and> ((\<forall>w \<in> set ds. score w = None) \<longrightarrow> matchToDatabase db ds = None)
   \<and> matchToDatabase db [] = None"
proof (intro conjI impI)
  assume "description d = None \<and> dname d = None"
  then show "labelOf d = []"
    by (simp add: labelOf_def orElse_def truthy_def toLowerCase_def)
next
  assume none: "score d = None"
  then show "confidenceOf d = 0"
    by (simp add: confidenceOf_def)
  with detectionStep_low [of d db st] show "detectionStep db d st = st"
    by (simp add: minConfidenceThreshold_def)
next
  assume "\<forall>w \<in> set ds. score w = None"
  then have "\<forall>w \<in> set ds. \<not> relevant w"
    by (simp add: relevant_def confidenceOf_def minConfidenceThreshold_def)
  then show "matchToDatabase db ds = None"
    by (simp add: matchToDatabase_None_iff)
next
  show "matchToDatabase db [] = None"
    by (simp add: matchToDatabase_def)
qed

theorem matchToDatabase_total_on_malformed_witness:
  "labelOf \<lparr>description = None, dname = None, score = None\<rparr> = []
   \<and> confidenceOf (unscored ''hammer'') = 0
   \<and> detectionStep [hammerEntry] (unscored ''hammer'') (None, 0) = (None, 0)
   \<and> matchToDatabase [hammerEntry] [unscored ''hammer'', unscored ''Hammer''] = None"
proof -
  have a: "description \<lparr>description = None, dname = None, score = None\<rparr> = None
           \<and> dname \<lparr>description = None, dname = None, score = None\<rparr> = None"
    by simp
  have b: "score (unscored ''hammer'') = None"
    by (simp add: unscored_def)
  have c: "\<forall>w \<in> set [unscored ''hammer'', unscored ''Hammer'']. score w = None"
    by (simp add: unscored_def)
  from matchToDatabase_total_on_malformed
         [of "\<lparr>description = None, dname = None, score = None\<rparr>" "[hammerEntry]" "(None, 0)" "[]"] a
  have 1: "labelOf \<lparr>description = None, dname = None, score = None\<rparr> = []"
    by blast
  from matchToDatabase_total_on_malformed
         [of "unscored ''hammer''" "[hammerEntry]" "(None, 0)"
             "[unscored ''hammer'', unscored ''Hammer'']"] b c
  have 2: "confidenceOf (unscored ''hammer'') = 0
           \<and> detectionStep [hammerEntry] (unscored ''hammer'') (None, 0) = (None, 0)
           \<and> matchToDatabase [hammerEntry] [unscored ''hammer'', unscored ''Hammer''] = None"
    by blast
  from 1 2 show ?thesis
    by simp
qed


section \<open>The two matchers compared\<close>

lemma simplePairScore_hammerEntry: "simplePairScore ''hammer'' c hammerEntry = 0.8 * c"
  by (simp add: simplePairScore_def hammerEntry_def string_eval)

lemma simplePairScore_clawHammerEntry:
  "simplePairScore ''hammer'' c clawHammerEntry = 0.8 * c + 0.6 * c + 0.6 * c"
  by (simp add: simplePairScore_def clawHammerEntry_def string_eval)

lemma matchToDatabase_simple_single:
  "matchToDatabase_simple [obj] [\<lparr>description = Some (x # xs), dname = n, score = Some c\<rparr>] =
     Inr (if simplePairScore (x # xs) c obj > 0
          then Some \<lparr>sm_object = obj, sm_confidence = round (simplePairScore (x # xs) c obj * 100)\<rparr>
          else None)"
  by (simp add: matchToDatabase_simple_def simpleDetectionStep_def simpleEntryStep_def
      orElse_def truthy_def confidenceOf_def Let_def)

text \<open>
  C9. The two matchers are not equivalent; on the same knowledge base they return different
  results. The earlier one has no relevance floor (a detection of score \<open>0.25\<close> whose pair
  would score \<open>0.6\<close> is matched with confidence \<open>50\<close>), no acceptance floor (a pair of score
  \<open>0.28\<close> is matched), other weights (\<open>0.8\<close>, \<open>0.6\<close> and \<open>0.5\<close>) and no ceiling
  (confidence \<open>180\<close> where the later version returns \<open>95\<close>).
\<close>

theorem matchers_differ:
  "matchToDatabase [clawHammerEntry] [hammerDetection 0.25] = None
   \<and> pairScore (labelOf (hammerDetection 0.25)) (confidenceOf (hammerDetection 0.25)) clawHammerEntry = 0.6
   \<and> matchToDatabase_simple [clawHammerEntry] [hammerDetection 0.25]
       = Inr (Some \<lparr>sm_object = clawHammerEntry, sm_confidence = 50\<rparr>)
   \<and> matchToDatabase [hammerEntry] [hammerDetection 0.35] = None
   \<and> matchToDatabase_simple [hammerEntry] [hammerDetection 0.35]
       = Inr (Some \<lparr>sm_object = hammerEntry, sm_confidence = 28\<rparr>)
   \<and> map_option confidence (matchToDatabase [clawHammerEntry] [hammerDetection 0.9]) = Some 95
   \<and> matchToDatabase_simple [clawHammerEntry] [hammerDetection 0.9]
       = Inr (Some \<lparr>sm_object = clawHammerEntry, sm_confidence = 180\<rparr>)"
proof (intro conjI)
  show "matchToDatabase [clawHammerEntry] [hammerDetection 0.25] = None"
    by (simp add: matchToDatabase_single hammerDetection_confidence)
  show "pairScore (labelOf (hammerDetection 0.25)) (confidenceOf (hammerDetection 0.25))
          clawHammerEntry = 0.6"
    by (simp add: hammerDetection_label hammerDetection_confidence pairScore_clawHammerEntry)
  show "matchToDatabase_simple [clawHammerEntry] [hammerDetection 0.25]
       = Inr (Some \<lparr>sm_object = clawHammerEntry, sm_confidence = 50\<rparr>)"
    by (simp add: hammerDetection_def matchToDatabase_simple_single simplePairScore_clawHammerEntry)
  show "matchToDatabase [hammerEntry] [hammerDetection 0.35] = None"
    by (simp add: matchToDatabase_single hammerDetection_label hammerDetection_confidence
        pairScore_hammerEntry)
  show "matchToDatabase_simple [hammerEntry] [hammerDetection 0.35]
       = Inr (Some \<lparr>sm_object = hammerEntry, sm_confidence = 28\<rparr>)"
    by (simp add: hammerDetection_def matchToDatabase_simple_single simplePairScore_hammerEntry)
  show "map_option confidence (matchToDatabase [clawHammerEntry] [hammerDetection 0.9]) = Some 95"
    by (simp add: matchToDatabase_single hammerDetection_label hammerDetection_confidence
        pairScore_clawHammerEntry)
  show "matchToDatabase_simple [clawHammerEntry] [hammerDetection 0.9]
       = Inr (Some \<lparr>sm_object = clawHammerEntry, sm_confidence = 180\<rparr>)"
    by (simp add: hammerDetection_def matchToDatabase_simple_single simplePairScore_clawHammerEntry)
qed

section \<open>The synthesizer\<close>

text \<open>
  C6. Two calls of the synthesizer on detections with the same label (case preserved) and
  the same score agree on every field except \<^verbatim>\<open>id\<close>, whatever the clock shows and
  whichever of \<^verbatim>\<open>description\<close> and \<^verbatim>\<open>name\<close> carried the label; they also fail together.
\<close>

theorem generateInstructionsForObject_deterministic:
  assumes "detectedLabel d1 = detectedLabel d2" and "confidenceOf d1 = confidenceOf d2"
  shows "map_sum id (\<lambda>s. s\<lparr>syn_id := []\<rparr>) (generateInstructionsForObject t1 d1)
           = map_sum id (\<lambda>s. s\<lparr>syn_id := []\<rparr>) (generateInstructionsForObject t2 d2)"
  using assms
  by (simp add: generateInstructionsForObject_def Let_def split: option.splits sum.splits)

lemma spokenPhone_label: "detectedLabel spokenPhone = Some ''Mobile Phone''"
  by (simp add: detectedLabel_def spokenPhone_def orElse_def truthy_def)

lemma locatedPhone_label: "detectedLabel locatedPhone = Some ''Mobile Phone''"
  by (simp add: detectedLabel_def locatedPhone_def orElse_def truthy_def)

theorem generateInstructionsForObject_deterministic_witness:
  "detectedLabel spokenPhone = detectedLabel locatedPhone
   \<and> confidenceOf spokenPhone = confidenceOf locatedPhone
   \<and> map_sum id (\<lambda>s. s\<lparr>syn_id := []\<rparr>) (generateInstructionsForObject 1 spokenPhone)
       = map_sum id (\<lambda>s. s\<lparr>syn_id := []\<rparr>) (generateInstructionsForObject 2 locatedPhone)
   \<and> generateInstructionsForObject 1 spokenPhone \<noteq> generateInstructionsForObject 2 locatedPhone
   \<and> isl (generateInstructionsForObject 1 spokenPhone) = False"
proof -
  have a: "detectedLabel spokenPhone = detectedLabel locatedPhone"
    by (simp add: spokenPhone_label locatedPhone_label)
  have b: "confidenceOf spokenPhone = confidenceOf locatedPhone"
    by (simp add: confidenceOf_def spokenPhone_def locatedPhone_def)
  have c: "generateInstructionsForObject 1 spokenPhone \<noteq> generateInstructionsForObject 2 locatedPhone"
    by (simp add: generateInstructionsForObject_def spokenPhone_label locatedPhone_label
        generateTags_def inheritedKeys_def string_eval Let_def)
  have d: "isl (generateInstructionsForObject 1 spokenPhone) = False"
    by (simp add: generateInstructionsForObject_def spokenPhone_label
        generateTags_def inheritedKeys_def string_eval Let_def)
  from generateInstructionsForObject_deterministic [OF a b, of 1 2] a b c d show ?thesis
    by simp
qed

section \<open>The orchestrator\<close>

lemma usable_iff:
  "usable labels \<longleftrightarrow> labels \<noteq> [] \<and> (\<exists>s. score (hd labels) = Some s \<and> s > 0.5)"
  by (simp add: usable_def split: list.splits option.splits)

lemma processResponse_matched_iff:
  "processResponse db now r = Inr (Some (Matched x)) \<longleftrightarrow>
     matchToDatabase db (orEmpty (labelAnnotations r) @ orEmpty (localizedObjectAnnotations r)) = Some x
     \<and> confidence x > 70"
  by (auto simp add: processResponse_def Let_def split: option.splits list.splits sum.splits if_splits)

lemma processResponse_otherwise:
  assumes "\<not> (\<exists>x. matchToDatabase db (orEmpty (labelAnnotations r) @ orEmpty (localizedObjectAnnotations r)) = Some x
             \<and> confidence x > 70)"
  shows "processResponse db now r =
           (if usable (orEmpty (labelAnnotations r))
            then map_sum id (\<lambda>obj. Some (Dynamic obj (round (confidenceOf (hd (orEmpty (labelAnnotations r))) * 100))))
                   (generateInstructionsForObject now (hd (orEmpty (labelAnnotations r))))
            else Inr None)"
  using assms
  by (auto simp add: processResponse_def Let_def usable_def split: option.splits list.splits sum.splits)

lemma locatedHammer_label: "labelOf (locatedHammer s) = ''hammer''"
  by (simp add: locatedHammer_def labelOf_def orElse_def truthy_def string_eval)

lemma locatedHammer_confidence: "confidenceOf (locatedHammer s) = s"
  by (simp add: locatedHammer_def confidenceOf_def)

lemma pairScore_hammer_smartphoneEntry: "pairScore ''hammer'' c smartphoneEntry = 0"
  by (simp add: pairScore_def smartphoneEntry_def nameStep_def tagStep_def categoryStep_def
      keywordStep_def keywordMappings_def string_eval)

lemma matchToDatabase_mixed:
  "matchToDatabase [smartphoneEntry] [hammerDetection 0.45, locatedHammer 0.9] = None"
proof -
  have "\<forall>d \<in> set [hammerDetection 0.45, locatedHammer 0.9]. \<forall>obj \<in> set [smartphoneEntry].
          relevant d \<longrightarrow> pairScore (labelOf d) (confidenceOf d) obj < 0.4"
    by (simp add: hammerDetection_label locatedHammer_label pairScore_hammer_smartphoneEntry)
  then show ?thesis
    by (simp only: matchToDatabase_None_iff)
qed

text \<open>
  The synthesizer is offered the first label annotation only. A localized object of score
  \<open>0.6\<close> alone, or one of score \<open>0.9\<close> behind a label annotation of score \<open>0.45\<close>, is the
  best-scoring raw detection and exceeds \<open>0.5\<close>; there is no match of confidence above
  \<open>70\<close>; and yet nothing is returned.
\<close>

theorem synthesis_ignores_localized_objects:
  "orEmpty (labelAnnotations objectOnlyResponse) @ orEmpty (localizedObjectAnnotations objectOnlyResponse)
     = [locatedHammer 0.6]
   \<and> score (locatedHammer 0.6) = Some 0.6 \<and> (0.5::real) < 0.6
   \<and> map_option confidence (matchToDatabase [hammerEntry] [locatedHammer 0.6]) = Some 60
   \<and> processResponse [hammerEntry] 7 objectOnlyResponse = Inr None
   \<and> orEmpty (labelAnnotations mixedResponse) @ orEmpty (localizedObjectAnnotations mixedResponse)
     = [hammerDetection 0.45, locatedHammer 0.9]
   \<and> score (hammerDetection 0.45) = Some 0.45 \<and> score (locatedHammer 0.9) = Some 0.9
   \<and> (0.45::real) < 0.9 \<and> (0.5::real) < 0.9
   \<and> matchToDatabase [smartphoneEntry] [hammerDetection 0.45, locatedHammer 0.9] = None
   \<and> processResponse [smartphoneEntry] 7 mixedResponse = Inr None"
proof (intro conjI)
  show "orEmpty (labelAnnotations objectOnlyResponse) @ orEmpty (localizedObjectAnnotations objectOnlyResponse)
     = [locatedHammer 0.6]"
    by (simp add: objectOnlyResponse_def orEmpty_def)
  show "score (locatedHammer 0.6) = Some 0.6" "score (locatedHammer 0.9) = Some 0.9"
    by (simp_all add: locatedHammer_def)
  show "score (hammerDetection 0.45) = Some 0.45"
    by (simp add: hammerDetection_def)
  show "(0.5::real) < 0.6" "(0.45::real) < 0.9" "(0.5::real) < 0.9"
    by simp_all
  show "map_option confidence (matchToDatabase [hammerEntry] [locatedHammer 0.6]) = Some 60"
    by (simp add: matchToDatabase_single locatedHammer_label locatedHammer_confidence
        pairScore_hammerEntry)
  show "processResponse [hammerEntry] 7 objectOnlyResponse = Inr None"
    by (simp add: processResponse_def objectOnlyResponse_def orEmpty_def matchToDatabase_single
        locatedHammer_label locatedHammer_confidence pairScore_hammerEntry Let_def)
  show "orEmpty (labelAnnotations mixedResponse) @ orEmpty (localizedObjectAnnotations mixedResponse)
     = [hammerDetection 0.45, locatedHammer 0.9]"
    by (simp add: mixedResponse_def orEmpty_def)
  show "matchToDatabase [smartphoneEntry] [hammerDetection 0.45, locatedHammer 0.9] = None"
    by (rule matchToDatabase_mixed)
  show "processResponse [smartphoneEntry] 7 mixedResponse = Inr None"
    using matchToDatabase_mixed
    by (simp add: processResponse_def mixedResponse_def orEmpty_def usable_def
        hammerDetection_def Let_def)
qed

text \<open>
  C4, as the source has it. On a provider response, the orchestrator returns the matcher's
  result exactly when there is one and its confidence exceeds \<open>70\<close>. Without such a match
  it calls the synthesizer on the first label annotation (\<^verbatim>\<open>labels[0]\<close>; localized objects
  are not considered) exactly when that annotation exists and its score exceeds \<open>0.5\<close>,
  and otherwise returns nothing.
\<close>

theorem processResponse_routing:
  "(\<forall>x. processResponse db now r = Inr (Some (Matched x)) \<longleftrightarrow>
        matchToDatabase db (orEmpty (labelAnnotations r) @ orEmpty (localizedObjectAnnotations r)) = Some x
        \<and> confidence x > 70)
   \<and> ((\<nexists>x. matchToDatabase db (orEmpty (labelAnnotations r) @ orEmpty (localizedObjectAnnotations r)) = Some x
             \<and> confidence x > 70) \<longrightarrow>
        processResponse db now r =
           (if usable (orEmpty (labelAnnotations r))
            then map_sum id (\<lambda>obj. Some (Dynamic obj (round (confidenceOf (hd (orEmpty (labelAnnotations r))) * 100))))
                   (generateInstructionsForObject now (hd (orEmpty (labelAnnotations r))))
            else Inr None))
   \<and> (usable (orEmpty (labelAnnotations r)) \<longleftrightarrow>
        orEmpty (labelAnnotations r) \<noteq> []
        \<and> (\<exists>s. score (hd (orEmpty (labelAnnotations r))) = Some s \<and> s > 0.5))
   \<and> (truthy apiKey \<longrightarrow>
        callComputerVisionAPI db now apiKey (Json (Some (r # rs))) = processResponse db now r)"
proof (intro conjI allI impI)
  fix x
  show "processResponse db now r = Inr (Some (Matched x)) \<longleftrightarrow>
        matchToDatabase db (orEmpty (labelAnnotations r) @ orEmpty (localizedObjectAnnotations r)) = Some x
        \<and> confidence x > 70"
    by (rule processResponse_matched_iff)
next
  assume "\<nexists>x. matchToDatabase db (orEmpty (labelAnnotations r) @ orEmpty (localizedObjectAnnotations r)) = Some x
             \<and> confidence x > 70"
  then show
    "processResponse db now r =
           (if usable (orEmpty (labelAnnotations r))
            then map_sum id (\<lambda>obj. Some (Dynamic obj (round (confidenceOf (hd (orEmpty (labelAnnotations r))) * 100))))
                   (generateInstructionsForObject now (hd (orEmpty (labelAnnotations r))))
            else Inr None)"
    by (rule processResponse_otherwise)
next
  show "usable (orEmpty (labelAnnotations r)) \<longleftrightarrow>
        orEmpty (labelAnnotations r) \<noteq> []
        \<and> (\<exists>s. score (hd (orEmpty (labelAnnotations r))) = Some s \<and> s > 0.5)"
    by (rule usable_iff)
next
  assume "truthy apiKey"
  then show "callComputerVisionAPI db now apiKey (Json (Some (r # rs))) = processResponse db now r"
    by (simp add: callComputerVisionAPI_def)
qed

lemma hammerDetection_detectedLabel: "detectedLabel (hammerDetection s) = Some ''hammer''"
  by (simp add: detectedLabel_def hammerDetection_def orElse_def truthy_def)

theorem processResponse_routing_witness:
  "matchToDatabase [smartphoneEntry] (orEmpty (labelAnnotations phoneResponse)
        @ orEmpty (localizedObjectAnnotations phoneResponse))
      = Some \<lparr>object = smartphoneEntry, confidence = 95, detectedAs = ''mobile phone'',
               matchScore = 1.89\<rparr>
   \<and> processResponse [smartphoneEntry] 7 phoneResponse
      = Inr (Some (Matched \<lparr>object = smartphoneEntry, confidence = 95,
                            detectedAs = ''mobile phone'', matchScore = 1.89\<rparr>))
   \<and> matchToDatabase [hammerEntry] (orEmpty (labelAnnotations (hammerResponse 0.6))
        @ orEmpty (localizedObjectAnnotations (hammerResponse 0.6)))
      = Some \<lparr>object = hammerEntry, confidence = 60, detectedAs = ''hammer'', matchScore = 0.6\<rparr>
   \<and> processResponse [hammerEntry] 7 (hammerResponse 0.6)
      = map_sum id (\<lambda>obj. Some (Dynamic obj 60)) (generateInstructionsForObject 7 (hammerDetection 0.6))
   \<and> isl (generateInstructionsForObject 7 (hammerDetection 0.6)) = False
   \<and> processResponse [hammerEntry] 7 (hammerResponse 0.5) = Inr None
   \<and> truthy (Some ''key'')
   \<and> callComputerVisionAPI [hammerEntry] 7 (Some ''key'') (Json (Some [hammerResponse 0.5])) = Inr None"
proof -
  have m1: "matchToDatabase [smartphoneEntry] (orEmpty (labelAnnotations phoneResponse)
        @ orEmpty (localizedObjectAnnotations phoneResponse))
      = Some \<lparr>object = smartphoneEntry, confidence = 95, detectedAs = ''mobile phone'',
               matchScore = 1.89\<rparr>"
    by (simp add: phoneResponse_def orEmpty_def matchToDatabase_smartphoneEntry)
  have m2: "matchToDatabase [hammerEntry] (orEmpty (labelAnnotations (hammerResponse s))
        @ orEmpty (localizedObjectAnnotations (hammerResponse s)))
      = (if s < 0.4 then None
         else Some \<lparr>object = hammerEntry, confidence = min (round (s * 100)) 95,
                detectedAs = ''hammer'', matchScore = s\<rparr>)" for s
    by (simp add: hammerResponse_def orEmpty_def matchToDatabase_single hammerDetection_label
        hammerDetection_confidence pairScore_hammerEntry)
  have labels: "orEmpty (labelAnnotations (hammerResponse s)) = [hammerDetection s]" for s
    by (simp add: hammerResponse_def orEmpty_def)
  have sc: "score (hammerDetection s) = Some s" for s
    by (simp add: hammerDetection_def)
  have key: "truthy (Some ''key'')"
    by (simp add: truthy_def)
  have ok: "isl (generateInstructionsForObject 7 (hammerDetection 0.6)) = False"
    by (simp add: generateInstructionsForObject_def hammerDetection_detectedLabel generateTags_def
        inheritedKeys_def string_eval Let_def)
  note thm1 = processResponse_routing [of "[smartphoneEntry]" 7 phoneResponse "Some ''key''" "[]"]
  note thm2 = processResponse_routing [of "[hammerEntry]" 7 "hammerResponse 0.6" "Some ''key''" "[]"]
  note thm3 = processResponse_routing [of "[hammerEntry]" 7 "hammerResponse 0.5" "Some ''key''" "[]"]
  from thm1 m1 have r1: "processResponse [smartphoneEntry] 7 phoneResponse
      = Inr (Some (Matched \<lparr>object = smartphoneEntry, confidence = 95,
                            detectedAs = ''mobile phone'', matchScore = 1.89\<rparr>))"
    by simp
  have nohigh: "\<nexists>x. matchToDatabase [hammerEntry] (orEmpty (labelAnnotations (hammerResponse s))
        @ orEmpty (localizedObjectAnnotations (hammerResponse s))) = Some x \<and> confidence x > 70"
    if "s \<le> 0.7" for s
  proof -
    from that have "s * 100 \<le> 70" by simp
    then have "round (s * 100) \<le> round (70::real)" by (rule round_mono)
    then show ?thesis by (simp add: m2)
  qed
  have use: "usable (orEmpty (labelAnnotations (hammerResponse s))) \<longleftrightarrow> s > 0.5" for s
    by (simp add: labels usable_def sc)
  from thm2 nohigh [of "0.6"] have
    "processResponse [hammerEntry] 7 (hammerResponse 0.6) =
       (if usable (orEmpty (labelAnnotations (hammerResponse 0.6)))
        then map_sum id (\<lambda>obj. Some (Dynamic obj
                 (round (confidenceOf (hd (orEmpty (labelAnnotations (hammerResponse 0.6)))) * 100))))
               (generateInstructionsForObject 7 (hd (orEmpty (labelAnnotations (hammerResponse 0.6)))))
        else Inr None)"
    by simp
  then have r2: "processResponse [hammerEntry] 7 (hammerResponse 0.6)
      = map_sum id (\<lambda>obj. Some (Dynamic obj 60)) (generateInstructionsForObject 7 (hammerDetection 0.6))"
    by (simp add: use) (simp add: labels hammerDetection_confidence)
  from thm3 nohigh [of "0.5"] have
    "processResponse [hammerEntry] 7 (hammerResponse 0.5) =
       (if usable (orEmpty (labelAnnotations (hammerResponse 0.5)))
        then map_sum id (\<lambda>obj. Some (Dynamic obj
                 (round (confidenceOf (hd (orEmpty (labelAnnotations (hammerResponse 0.5)))) * 100))))
               (generateInstructionsForObject 7 (hd (orEmpty (labelAnnotations (hammerResponse 0.5)))))
        else Inr None)"
    by simp
  then have r3: "processResponse [hammerEntry] 7 (hammerResponse 0.5) = Inr None"
    by (simp add: use)
  from thm3 key r3 have r4:
    "callComputerVisionAPI [hammerEntry] 7 (Some ''key'') (Json (Some [hammerResponse 0.5])) = Inr None"
    by simp
  from m1 r1 m2 [of "0.6"] r2 ok r3 key r4 show ?thesis
    by simp
qed

subsection \<open>Recovery from provider failures\<close>

text \<open>
  C7. Whenever the provider call throws, the orchestrator returns the result of the demo
  path; a missing API key is one such case. In no case does the orchestrator itself end in
  an exception.
\<close>

theorem performObjectRecognition_recovers:
  "(\<forall>e. callComputerVisionAPI db now apiKey prov = Inl e \<longrightarrow>
        performObjectRecognition db now apiKey prov rnd imageData
          = Inr (performIntelligentMatching rnd db imageData))
   \<and> (\<not> truthy apiKey \<longrightarrow>
        callComputerVisionAPI db now apiKey prov = Inl (Error ''API key not configured''))
   \<and> (\<exists>res. performObjectRecognition db now apiKey prov rnd imageData = Inr res)"
  by (simp add: performObjectRecognition_def callComputerVisionAPI_def
      split: sum.splits option.splits)

theorem performObjectRecognition_recovers_witness:
  "\<not> truthy None
   \<and> callComputerVisionAPI [smartphoneEntry] 7 None (Json (Some [phoneResponse]))
       = Inl (Error ''API key not configured'')
   \<and> performObjectRecognition [smartphoneEntry] 7 None (Json (Some [phoneResponse])) topDraws smallImage
       = Inr (performIntelligentMatching topDraws [smartphoneEntry] smallImage)
   \<and> callComputerVisionAPI [smartphoneEntry] 7 (Some ''key'') (NotOk 403 ''denied'')
       = Inl (Error ''API request failed: 403 - denied'')
   \<and> performObjectRecognition [smartphoneEntry] 7 (Some ''key'') (NotOk 403 ''denied'') topDraws smallImage
       = Inr (performIntelligentMatching topDraws [smartphoneEntry] smallImage)"
proof -
  have nokey: "\<not> truthy None"
    by (simp add: truthy_def)
  have denied: "callComputerVisionAPI [smartphoneEntry] 7 (Some ''key'') (NotOk 403 ''denied'')
       = Inl (Error ''API request failed: 403 - denied'')"
    by (simp add: callComputerVisionAPI_def truthy_def)
  note thm1 = performObjectRecognition_recovers
      [of "[smartphoneEntry]" 7 None "Json (Some [phoneResponse])" topDraws smallImage]
  note thm2 = performObjectRecognition_recovers
      [of "[smartphoneEntry]" 7 "Some ''key''" "NotOk 403 ''denied''" topDraws smallImage]
  from thm1 nokey have a: "callComputerVisionAPI [smartphoneEntry] 7 None (Json (Some [phoneResponse]))
       = Inl (Error ''API key not configured'')"
    by blast
  from thm1 a have b:
    "performObjectRecognition [smartphoneEntry] 7 None (Json (Some [phoneResponse])) topDraws smallImage
       = Inr (performIntelligentMatching topDraws [smartphoneEntry] smallImage)"
    by blast
  from thm2 denied have c:
    "performObjectRecognition [smartphoneEntry] 7 (Some ''key'') (NotOk 403 ''denied'') topDraws smallImage
       = Inr (performIntelligentMatching topDraws [smartphoneEntry] smallImage)"
    by blast
  from nokey a b denied c show ?thesis
    by simp
qed

section \<open>The demo fallback\<close>

lemma demoConfidence_range:
  assumes "0 \<le> r" and "r < 1"
  shows "40 \<le> demoConfidence r \<and> demoConfidence r \<le> 69"
proof -
  have "0 \<le> r * 30" using assms(1) by simp
  then have lo: "0 \<le> \<lfloor>r * 30\<rfloor>" by simp
  have "r * 30 < 30" using assms(2) by simp
  then have "\<lfloor>r * 30\<rfloor> < 30" by (simp add: floor_less_iff)
  with lo show ?thesis by (simp add: demoConfidence_def)
qed

lemma performDemoMatching_random:
  assumes "sizeBranch db imageData = None"
  shows "performDemoMatching rnd db imageData =
           (if rnd 0 > 0.7
            then Some (Demo (at_index db \<lfloor>rnd 1 * real (length db)\<rfloor>) (demoConfidence (rnd 2))
                         ''Demo mode: Random selection for demonstration'')
            else None)"
  using assms by (simp add: performDemoMatching_def Let_def)

lemma demoConfidence_preimage:
  assumes "40 \<le> k" and "k \<le> 69"
  shows "{r. 0 \<le> r \<and> r < 1 \<and> demoConfidence r = k}
           = {real_of_int (k - 40) / 30 ..< real_of_int (k - 39) / 30}"
proof (rule set_eqI)
  fix r :: real
  have "demoConfidence r = k \<longleftrightarrow> \<lfloor>r * 30\<rfloor> = k - 40"
    by (auto simp add: demoConfidence_def)
  also have "\<dots> \<longleftrightarrow> of_int (k - 40) \<le> r * 30 \<and> r * 30 < of_int (k - 40) + 1"
    by (rule floor_eq_iff)
  also have "\<dots> \<longleftrightarrow> real_of_int (k - 40) \<le> r * 30 \<and> r * 30 < real_of_int (k - 39)"
    by simp
  finally have eq: "demoConfidence r = k \<longleftrightarrow>
      real_of_int (k - 40) \<le> r * 30 \<and> r * 30 < real_of_int (k - 39)" .
  have range: "0 \<le> r \<and> r < 1"
    if "real_of_int (k - 40) \<le> r * 30" and "r * 30 < real_of_int (k - 39)"
    using that assms by auto
  show "r \<in> {r. 0 \<le> r \<and> r < 1 \<and> demoConfidence r = k}
          \<longleftrightarrow> r \<in> {real_of_int (k - 40) / 30 ..< real_of_int (k - 39) / 30}"
    using range by (auto simp add: eq)
qed

lemma at_index_floor:
  assumes "0 \<le> r" and "r < 1" and "db \<noteq> []"
  shows "\<exists>obj \<in> set db. at_index db \<lfloor>r * real (length db)\<rfloor> = Some obj"
proof -
  let ?n = "length db"
  have pos: "0 < real ?n" using assms(3) by simp
  have "0 \<le> r * real ?n" using assms(1) by simp
  then have lo: "0 \<le> \<lfloor>r * real ?n\<rfloor>" by simp
  have "r * real ?n < 1 * real ?n" using assms(2) pos by (simp only: mult_strict_right_mono)
  then have "r * real ?n < of_int (int ?n)" by simp
  then have hi: "\<lfloor>r * real ?n\<rfloor> < int ?n" by (simp only: floor_less_iff)
  from lo hi have "nat \<lfloor>r * real ?n\<rfloor> < ?n" using nat_less_iff by blast
  then have "db ! nat \<lfloor>r * real ?n\<rfloor> \<in> set db" by simp
  with lo hi show ?thesis by (simp add: at_index_def)
qed

lemma sizeBranch_medium: "sizeBranch demoDatabase mediumImage = None"
  by (simp add: sizeBranch_def mediumImage_def Let_def)

text \<open>
  With the third draw close to \<open>1\<close> the random branch reports confidence \<open>69\<close>, and no
  draws in \<open>[0, 1)\<close> make it report \<open>70\<close>.
\<close>

theorem demo_random_confidence_never_70:
  "performDemoMatching topDraws demoDatabase mediumImage
     = Some (Demo (Some coffeeMakerEntry) 69 ''Demo mode: Random selection for demonstration'')
   \<and> (\<nexists>rnd db imageData obj msg.
         unitDraws rnd \<and> sizeBranch db imageData = None
         \<and> performDemoMatching rnd db imageData = Some (Demo obj 70 msg))"
proof (intro conjI notI)
  show "performDemoMatching topDraws demoDatabase mediumImage
     = Some (Demo (Some coffeeMakerEntry) 69 ''Demo mode: Random selection for demonstration'')"
    by (simp add: performDemoMatching_random [OF sizeBranch_medium] topDraws_def)
      (simp add: at_index_def demoConfidence_def demoDatabase_def)
next
  assume "\<exists>rnd db imageData obj msg.
         unitDraws rnd \<and> sizeBranch db imageData = None
         \<and> performDemoMatching rnd db imageData = Some (Demo obj 70 msg)"
  then obtain rnd db imageData obj msg where
    draws: "unitDraws rnd" and size: "sizeBranch db imageData = None"
    and res: "performDemoMatching rnd db imageData = Some (Demo obj 70 msg)"
    by blast
  from res have "demoConfidence (rnd 2) = 70"
    by (simp add: performDemoMatching_random [OF size] split: if_splits)
  moreover from draws have "demoConfidence (rnd 2) \<le> 69"
    using demoConfidence_range [of "rnd 2"] by (simp add: unitDraws_def)
  ultimately show False
    by simp
qed

text \<open>
  C8, as the source has it. When neither size branch returns and the three draws lie in
  \<open>[0, 1)\<close>: if the first draw is strictly greater than \<open>0.7\<close> the heuristic returns the
  entry at the index \<open>\<lfloor>r \<times> length\<rfloor>\<close> given by the second draw \<open>r\<close> (an entry of the
  knowledge base whenever it is not empty), with the confidence \<open>\<lfloor>30 r\<rfloor> + 40\<close> given by
  the third draw \<open>r\<close>, an integer from \<open>40\<close> to \<open>69\<close>; each of these thirty
  values comes from an interval of draws of length \<open>1/30\<close>. If the first draw is at most
  \<open>0.7\<close> there is no match.
\<close>

theorem demo_random_branch:
  assumes "sizeBranch db imageData = None" and "unitDraws rnd"
  shows "(rnd 0 > 0.7 \<longrightarrow>
            performDemoMatching rnd db imageData =
              Some (Demo (at_index db \<lfloor>rnd 1 * real (length db)\<rfloor>) (demoConfidence (rnd 2))
                      ''Demo mode: Random selection for demonstration'')
            \<and> (db \<noteq> [] \<longrightarrow> (\<exists>obj \<in> set db. at_index db \<lfloor>rnd 1 * real (length db)\<rfloor> = Some obj))
            \<and> 40 \<le> demoConfidence (rnd 2) \<and> demoConfidence (rnd 2) \<le> 69)
         \<and> (rnd 0 \<le> 0.7 \<longrightarrow> performDemoMatching rnd db imageData = None)
         \<and> (\<forall>k. 40 \<le> k \<and> k \<le> 69 \<longrightarrow>
               {r. 0 \<le> r \<and> r < 1 \<and> demoConfidence r = k}
                 = {real_of_int (k - 40) / 30 ..< real_of_int (k - 39) / 30})"
proof (intro conjI allI impI)
  assume "rnd 0 > 0.7"
  then show "performDemoMatching rnd db imageData =
              Some (Demo (at_index db \<lfloor>rnd 1 * real (length db)\<rfloor>) (demoConfidence (rnd 2))
                      ''Demo mode: Random selection for demonstration'')"
    by (simp add: performDemoMatching_random [OF assms(1)])
next
  assume "db \<noteq> []"
  with assms(2) show "\<exists>obj \<in> set db. at_index db \<lfloor>rnd 1 * real (length db)\<rfloor> = Some obj"
    by (simp add: at_index_floor unitDraws_def)
next
  from assms(2) have "40 \<le> demoConfidence (rnd 2) \<and> demoConfidence (rnd 2) \<le> 69"
    by (simp add: demoConfidence_range unitDraws_def)
  then show "40 \<le> demoConfidence (rnd 2)" and "demoConfidence (rnd 2) \<le> 69"
    by simp_all
next
  assume "rnd 0 \<le> 0.7"
  then show "performDemoMatching rnd db imageData = None"
    by (simp add: performDemoMatching_random [OF assms(1)])
next
  fix k :: int
  assume "40 \<le> k \<and> k \<le> 69"
  then show "{r. 0 \<le> r \<and> r < 1 \<and> demoConfidence r = k}
                 = {real_of_int (k - 40) / 30 ..< real_of_int (k - 39) / 30}"
    by (simp add: demoConfidence_preimage)
qed

theorem demo_random_branch_witness:
  "sizeBranch demoDatabase mediumImage = None \<and> unitDraws topDraws \<and> 0.7 < topDraws 0
   \<and> performDemoMatching topDraws demoDatabase mediumImage
       = Some (Demo (Some coffeeMakerEntry) 69 ''Demo mode: Random selection for demonstration'')
   \<and> unitDraws boundaryDraws \<and> boundaryDraws 0 \<le> 0.7
   \<and> performDemoMatching boundaryDraws demoDatabase mediumImage = None
   \<and> {r. 0 \<le> r \<and> r < 1 \<and> demoConfidence r = 69} = {29 / 30 ..< 1}"
proof -
  have top: "unitDraws topDraws" and high: "0.7 < topDraws 0"
    by (simp_all add: unitDraws_def topDraws_def)
  have bd: "unitDraws boundaryDraws" and low: "boundaryDraws 0 \<le> 0.7"
    by (simp_all add: unitDraws_def boundaryDraws_def)
  note thm1 = demo_random_branch [OF sizeBranch_medium top]
  note thm2 = demo_random_branch [OF sizeBranch_medium bd]
  from thm1 high have "performDemoMatching topDraws demoDatabase mediumImage =
      Some (Demo (at_index demoDatabase \<lfloor>topDraws 1 * real (length demoDatabase)\<rfloor>)
              (demoConfidence (topDraws 2)) ''Demo mode: Random selection for demonstration'')"
    by blast
  then have a: "performDemoMatching topDraws demoDatabase mediumImage
       = Some (Demo (Some coffeeMakerEntry) 69 ''Demo mode: Random selection for demonstration'')"
    by (simp add: topDraws_def at_index_def demoConfidence_def demoDatabase_def)
  from thm2 low have b: "performDemoMatching boundaryDraws demoDatabase mediumImage = None"
    by blast
  from thm1 have "{r. 0 \<le> r \<and> r < 1 \<and> demoConfidence r = 69}
      = {real_of_int (69 - 40) / 30 ..< real_of_int (69 - 39) / 30}"
    by simp
  then have c: "{r. 0 \<le> r \<and> r < 1 \<and> demoConfidence r = 69} = {29 / 30 ..< 1}"
    by simp
  from sizeBranch_medium top high a bd low b c show ?thesis
    by simp
qed


end
